theory Spec2Isabelle
  imports Complex_Main
begin

section \<open>The relational schema (supabase/migrations)\<close>

text \<open>
  Tables are lists of rows. A column declared \<open>NOT NULL\<close> carries a plain type, a
  nullable column an \<open>option\<close>; the foreign-key columns of \<open>conversations\<close> and the
  checked columns of \<open>donations\<close> are kept as \<open>option\<close> although they are declared
  \<open>NOT NULL\<close>, so that the constraint is a check of the insert and not of the type.
  \<open>NOW()\<close> and \<open>auth.uid()\<close> are parameters of every operation; \<open>auth.uid()\<close> is
  \<open>None\<close> for an anonymous caller, and an SQL comparison with NULL does not hold.
  A \<open>uuid\<close> is a string, a timestamp a number. The table \<open>auth.users\<close> belongs to the platform:
  the reference of \<open>profiles.id\<close> to it is met by every authenticated caller writing
  the own row, and its \<open>ON DELETE CASCADE\<close> is the operation \<open>delete_user\<close> below.
\<close>

type_synonym uuid = string
type_synonym timestamp = nat

record profile =
  p_id :: uuid
  p_email :: string
  p_full_name :: "string option"
  p_phone :: "string option"
  p_user_type :: string
  p_verification_status :: string
  p_created_at :: "timestamp option"
  p_updated_at :: "timestamp option"

record institution =
  i_id :: uuid
  i_user_id :: uuid
  i_institution_name :: string
  i_country :: string
  i_city :: string
  i_address :: string
  i_contact_person :: string
  i_contact_position :: "string option"
  i_certificate_url :: "string option"
  i_created_at :: "timestamp option"

record investor =
  inv_id :: uuid
  inv_user_id :: uuid
  inv_investor_type :: string
  inv_company_name :: "string option"
  inv_certificate_url :: "string option"
  inv_created_at :: "timestamp option"

record conversation =
  c_id :: uuid
  c_institution_id :: "uuid option"
  c_investor_id :: "uuid option"
  c_created_at :: "timestamp option"
  c_updated_at :: "timestamp option"

record message =
  m_id :: uuid
  m_conversation_id :: uuid
  m_sender_id :: uuid
  m_content :: string
  m_read :: "bool option"
  m_created_at :: "timestamp option"

datatype app_role = Admin | Institution | Investor

record user_role =
  r_id :: uuid
  r_user_id :: uuid
  r_role :: app_role
  r_created_at :: "timestamp option"

text \<open>
  The values of \<open>numeric\<close>: the numbers, the two infinities and NaN. In the order of
  \<open>numeric\<close> NaN equals itself and is greater than every other value.
\<close>

datatype pg_numeric = Num rat | NumInf | NumNegInf | NumNaN

fun numeric_gt :: "pg_numeric \<Rightarrow> pg_numeric \<Rightarrow> bool" where
  "numeric_gt NumNaN NumNaN = False"
| "numeric_gt NumNaN y = True"
| "numeric_gt x NumNaN = False"
| "numeric_gt NumInf NumInf = False"
| "numeric_gt NumInf y = True"
| "numeric_gt x NumInf = False"
| "numeric_gt NumNegInf y = False"
| "numeric_gt (Num a) NumNegInf = True"
| "numeric_gt (Num a) (Num b) = (a > b)"

record donation =
  d_id :: uuid
  d_investor_id :: "uuid option"
  d_institution_id :: "uuid option"
  d_amount :: "pg_numeric option"
  d_currency :: string
  d_status :: "string option"
  d_donation_date :: timestamp
  d_message :: "string option"
  d_created_at :: timestamp
  d_updated_at :: timestamp

record db =
  profiles :: "profile list"
  institutions :: "institution list"
  investors :: "investor list"
  conversations :: "conversation list"
  messages :: "message list"
  user_roles :: "user_role list"
  donations :: "donation list"

definition empty_db :: db where
  "empty_db = \<lparr>profiles = [], institutions = [], investors = [], conversations = [],
     messages = [], user_roles = [], donations = []\<rparr>"

datatype error = NotNullViolation | CheckViolation | UniqueViolation
  | ForeignKeyViolation | RlsViolation

subsection \<open>Security-definer helper functions\<close>

text \<open>\<open>app_role::text\<close>, the enum labels of \<open>CREATE TYPE public.app_role\<close>.\<close>

fun role_text :: "app_role \<Rightarrow> string" where
  "role_text Admin = ''admin''"
| "role_text Institution = ''institution''"
| "role_text Investor = ''investor''"

text \<open>\<open>public.has_role\<close> as replaced by migration 20251110121000.\<close>

definition has_role :: "db \<Rightarrow> uuid option \<Rightarrow> app_role \<Rightarrow> bool" where
  "has_role d uid role =
     (list_ex (\<lambda>r. Some (r_user_id r) = uid \<and> r_role r = role) (user_roles d)
      \<or> list_ex (\<lambda>p. Some (p_id p) = uid \<and> p_user_type p = role_text role) (profiles d))"

text \<open>
  \<open>public.is_institution_in_conversation\<close> and \<open>public.is_investor_in_conversation\<close>:
  \<open>SECURITY DEFINER\<close>, so the joins range over the whole tables.
\<close>

definition is_institution_in_conversation :: "db \<Rightarrow> uuid option \<Rightarrow> uuid \<Rightarrow> bool" where
  "is_institution_in_conversation d uid conv_id =
     list_ex (\<lambda>c. list_ex (\<lambda>i. list_ex (\<lambda>p.
         c_institution_id c = Some (i_id i) \<and> i_user_id i = p_id p
         \<and> c_id c = conv_id \<and> Some (p_id p) = uid
         \<and> p_verification_status p = ''verified'')
       (profiles d)) (institutions d)) (conversations d)"

definition is_investor_in_conversation :: "db \<Rightarrow> uuid option \<Rightarrow> uuid \<Rightarrow> bool" where
  "is_investor_in_conversation d uid conv_id =
     list_ex (\<lambda>c. list_ex (\<lambda>v. list_ex (\<lambda>p.
         c_investor_id c = Some (inv_id v) \<and> inv_user_id v = p_id p
         \<and> c_id c = conv_id \<and> Some (p_id p) = uid
         \<and> p_verification_status p = ''verified'')
       (profiles d)) (investors d)) (conversations d)"

subsection \<open>Messages: insert policy and timestamp trigger\<close>

text \<open>Policy "Verified users can send messages in their conversations" (WITH CHECK).\<close>

definition messages_insert_check :: "db \<Rightarrow> uuid option \<Rightarrow> message \<Rightarrow> bool" where
  "messages_insert_check d uid m =
     (uid = Some (m_sender_id m)
      \<and> (is_institution_in_conversation d uid (m_conversation_id m)
         \<or> is_investor_in_conversation d uid (m_conversation_id m)))"

text \<open>
  \<open>public.update_conversation_timestamp\<close>, fired \<open>AFTER INSERT ON public.messages FOR
  EACH ROW\<close>: \<open>UPDATE conversations SET updated_at = NOW() WHERE id = NEW.conversation_id\<close>.
\<close>

definition update_conversation_timestamp :: "timestamp \<Rightarrow> message \<Rightarrow> db \<Rightarrow> db" where
  "update_conversation_timestamp now new d =
     d\<lparr>conversations :=
        map (\<lambda>c. if c_id c = m_conversation_id new then c\<lparr>c_updated_at := Some now\<rparr> else c)
          (conversations d)\<rparr>"

text \<open>
  \<open>INSERT INTO messages\<close> by caller \<open>uid\<close>: the row-level check, the primary key, the
  two foreign keys, then the row is stored and the trigger runs.
\<close>

definition insert_message :: "db \<Rightarrow> uuid option \<Rightarrow> timestamp \<Rightarrow> message \<Rightarrow> error + db" where
  "insert_message d uid now m =
     (if \<not> messages_insert_check d uid m then Inl RlsViolation
      else if m_id m \<in> set (map m_id (messages d)) then Inl UniqueViolation
      else if m_conversation_id m \<notin> set (map c_id (conversations d)) then Inl ForeignKeyViolation
      else if m_sender_id m \<notin> set (map p_id (profiles d)) then Inl ForeignKeyViolation
      else Inr (update_conversation_timestamp now m (d\<lparr>messages := messages d @ [m]\<rparr>)))"

subsection \<open>Row-level security of the tables read by policy sub-selects\<close>

text \<open>
  A policy expression runs with the privileges of the caller: a table named in a
  sub-select of a policy is itself filtered by that table's SELECT policies (all five
  tables have row-level security enabled), unless the sub-select sits in a \<open>SECURITY
  DEFINER\<close> function such as \<open>has_role\<close> or \<open>is_institution_in_conversation\<close>.
  Permissive policies of one command are joined by OR.
\<close>

text \<open>"Users can view their own profile", "Admins can view all profiles".\<close>

definition profiles_select_using :: "db \<Rightarrow> uuid option \<Rightarrow> profile \<Rightarrow> bool" where
  "profiles_select_using d uid p = (uid = Some (p_id p) \<or> has_role d uid Admin)"

definition visible_profiles :: "db \<Rightarrow> uuid option \<Rightarrow> profile list" where
  "visible_profiles d uid = filter (profiles_select_using d uid) (profiles d)"

text \<open>"Users can view their own institution", "Verified investors can view
  institutions", "Admins can view all institutions".\<close>

definition institutions_select_using :: "db \<Rightarrow> uuid option \<Rightarrow> institution \<Rightarrow> bool" where
  "institutions_select_using d uid i =
     (uid = Some (i_user_id i)
      \<or> list_ex (\<lambda>p. Some (p_id p) = uid \<and> p_user_type p = ''investor''
                    \<and> p_verification_status p = ''verified'') (visible_profiles d uid)
      \<or> has_role d uid Admin)"

definition visible_institutions :: "db \<Rightarrow> uuid option \<Rightarrow> institution list" where
  "visible_institutions d uid = filter (institutions_select_using d uid) (institutions d)"

text \<open>"Users can view their own investor profile", "Verified institutions can view
  investors", "Admins can view all investors".\<close>

definition investors_select_using :: "db \<Rightarrow> uuid option \<Rightarrow> investor \<Rightarrow> bool" where
  "investors_select_using d uid v =
     (uid = Some (inv_user_id v)
      \<or> list_ex (\<lambda>p. Some (p_id p) = uid \<and> p_user_type p = ''institution''
                    \<and> p_verification_status p = ''verified'') (visible_profiles d uid)
      \<or> has_role d uid Admin)"

definition visible_investors :: "db \<Rightarrow> uuid option \<Rightarrow> investor list" where
  "visible_investors d uid = filter (investors_select_using d uid) (investors d)"

subsection \<open>Profiles: insert, update\<close>

text \<open>The two CHECK constraints of \<open>public.profiles\<close>.\<close>

definition profile_checks :: "profile \<Rightarrow> bool" where
  "profile_checks p =
     (p_user_type p \<in> set [''institution'', ''investor'', ''admin'']
      \<and> p_verification_status p \<in> set [''pending'', ''verified'', ''rejected''])"

text \<open>"Users can insert their own profile" (WITH CHECK).\<close>

definition profiles_insert_check :: "db \<Rightarrow> uuid option \<Rightarrow> profile \<Rightarrow> bool" where
  "profiles_insert_check d uid p = (uid = Some (p_id p))"

definition insert_profile :: "db \<Rightarrow> uuid option \<Rightarrow> profile \<Rightarrow> error + db" where
  "insert_profile d uid p =
     (if \<not> profiles_insert_check d uid p then Inl RlsViolation
      else if \<not> profile_checks p then Inl CheckViolation
      else if p_id p \<in> set (map p_id (profiles d)) then Inl UniqueViolation
      else Inr (d\<lparr>profiles := profiles d @ [p]\<rparr>))"

text \<open>"Users can update their own profile", "Admins can update all profiles" (USING;
  neither names columns, neither has a WITH CHECK, so USING is also the check of the
  new row).\<close>

definition profiles_update_using :: "db \<Rightarrow> uuid option \<Rightarrow> profile \<Rightarrow> bool" where
  "profiles_update_using d uid p = (uid = Some (p_id p) \<or> has_role d uid Admin)"

text \<open>
  The body of an update request, \<open>.update({...})\<close>: a value for each column it sets.
  The key column \<open>id\<close> is not among them.
\<close>

record profile_patch =
  set_email :: "string option"
  set_full_name :: "string option option"
  set_phone :: "string option option"
  set_user_type :: "string option"
  set_verification_status :: "string option"

definition apply_profile_patch :: "profile_patch \<Rightarrow> profile \<Rightarrow> profile" where
  "apply_profile_patch pt p =
     p\<lparr>p_email := (case set_email pt of None \<Rightarrow> p_email p | Some v \<Rightarrow> v),
       p_full_name := (case set_full_name pt of None \<Rightarrow> p_full_name p | Some v \<Rightarrow> v),
       p_phone := (case set_phone pt of None \<Rightarrow> p_phone p | Some v \<Rightarrow> v),
       p_user_type := (case set_user_type pt of None \<Rightarrow> p_user_type p | Some v \<Rightarrow> v),
       p_verification_status :=
         (case set_verification_status pt of None \<Rightarrow> p_verification_status p | Some v \<Rightarrow> v)\<rparr>"

text \<open>\<open>public.update_updated_at_column\<close>, the BEFORE UPDATE trigger of profiles.\<close>

definition update_updated_at_column :: "timestamp \<Rightarrow> profile \<Rightarrow> profile" where
  "update_updated_at_column now new = new\<lparr>p_updated_at := Some now\<rparr>"

text \<open>
  \<open>UPDATE profiles SET ... WHERE id = target\<close> by caller \<open>uid\<close>: the rows the filter
  and the USING policies select are rewritten; a row the policies hide is skipped
  without an error.
\<close>

definition update_profile ::
  "db \<Rightarrow> uuid option \<Rightarrow> timestamp \<Rightarrow> uuid \<Rightarrow> profile_patch \<Rightarrow> error + db" where
  "update_profile d uid now target pt =
     (let hit = (\<lambda>p. p_id p = target \<and> profiles_update_using d uid p);
          new = (\<lambda>p. update_updated_at_column now (apply_profile_patch pt p));
          changed = map new (filter hit (profiles d))
      in if \<not> list_all (profiles_update_using d uid) changed then Inl RlsViolation
         else if \<not> list_all profile_checks changed then Inl CheckViolation
         else Inr (d\<lparr>profiles := map (\<lambda>p. if hit p then new p else p) (profiles d)\<rparr>))"

subsection \<open>Institutions, investors, user roles: insert\<close>

text \<open>"Users can insert their own institution" (WITH CHECK).\<close>

definition institutions_insert_check :: "db \<Rightarrow> uuid option \<Rightarrow> institution \<Rightarrow> bool" where
  "institutions_insert_check d uid i = (uid = Some (i_user_id i))"

definition insert_institution :: "db \<Rightarrow> uuid option \<Rightarrow> institution \<Rightarrow> error + db" where
  "insert_institution d uid i =
     (if \<not> institutions_insert_check d uid i then Inl RlsViolation
      else if i_id i \<in> set (map i_id (institutions d)) then Inl UniqueViolation
      else if i_user_id i \<in> set (map i_user_id (institutions d)) then Inl UniqueViolation
      else if i_user_id i \<notin> set (map p_id (profiles d)) then Inl ForeignKeyViolation
      else Inr (d\<lparr>institutions := institutions d @ [i]\<rparr>))"

text \<open>"Users can insert their own investor profile" (WITH CHECK).\<close>

definition investors_insert_check :: "db \<Rightarrow> uuid option \<Rightarrow> investor \<Rightarrow> bool" where
  "investors_insert_check d uid v = (uid = Some (inv_user_id v))"

definition insert_investor :: "db \<Rightarrow> uuid option \<Rightarrow> investor \<Rightarrow> error + db" where
  "insert_investor d uid v =
     (if \<not> investors_insert_check d uid v then Inl RlsViolation
      else if inv_investor_type v \<notin> set [''individual'', ''corporate'', ''foundation'', ''ngo'']
        then Inl CheckViolation
      else if inv_id v \<in> set (map inv_id (investors d)) then Inl UniqueViolation
      else if inv_user_id v \<in> set (map inv_user_id (investors d)) then Inl UniqueViolation
      else if inv_user_id v \<notin> set (map p_id (profiles d)) then Inl ForeignKeyViolation
      else Inr (d\<lparr>investors := investors d @ [v]\<rparr>))"

text \<open>"Admins can insert roles" (WITH CHECK).\<close>

definition insert_user_role :: "db \<Rightarrow> uuid option \<Rightarrow> user_role \<Rightarrow> error + db" where
  "insert_user_role d uid r =
     (if \<not> has_role d uid Admin then Inl RlsViolation
      else if r_id r \<in> set (map r_id (user_roles d)) then Inl UniqueViolation
      else if (r_user_id r, r_role r) \<in> set (map (\<lambda>x. (r_user_id x, r_role x)) (user_roles d))
        then Inl UniqueViolation
      else Inr (d\<lparr>user_roles := user_roles d @ [r]\<rparr>))"

subsection \<open>Conversations: select and insert policies, insert\<close>

text \<open>"Verified users can view their conversations" (USING).\<close>

definition conversations_select_using :: "db \<Rightarrow> uuid option \<Rightarrow> conversation \<Rightarrow> bool" where
  "conversations_select_using d uid c =
     (is_institution_in_conversation d uid (c_id c) \<or> is_investor_in_conversation d uid (c_id c))"

text \<open>
  The EXISTS sub-select of "Verified users can create conversations", over the rows
  \<open>ps\<close>, \<open>insts\<close>, \<open>invs\<close> of profiles, institutions and investors it is given:
  \<open>profiles p1 JOIN institutions i ON p1.id = i.user_id CROSS JOIN profiles p2 JOIN
  investors inv ON p2.id = inv.user_id WHERE ...\<close>.
\<close>

definition verified_pair_exists ::
  "profile list \<Rightarrow> institution list \<Rightarrow> investor list \<Rightarrow> uuid option \<Rightarrow> conversation \<Rightarrow> bool" where
  "verified_pair_exists ps insts invs uid c =
     list_ex (\<lambda>p1. list_ex (\<lambda>i. list_ex (\<lambda>p2. list_ex (\<lambda>v.
         p_id p1 = i_user_id i \<and> p_id p2 = inv_user_id v
         \<and> Some (i_id i) = c_institution_id c
         \<and> Some (inv_id v) = c_investor_id c
         \<and> p_verification_status p1 = ''verified''
         \<and> p_verification_status p2 = ''verified''
         \<and> (Some (p_id p1) = uid \<or> Some (p_id p2) = uid))
       invs) ps) insts) ps"

text \<open>
  The policy's WITH CHECK as the database evaluates it for caller \<open>uid\<close>: the sub-select
  is written inline in the policy (no security-definer function), so it reads the
  caller-visible rows of the three tables.
\<close>

definition conversations_insert_check :: "db \<Rightarrow> uuid option \<Rightarrow> conversation \<Rightarrow> bool" where
  "conversations_insert_check d uid c =
     verified_pair_exists (visible_profiles d uid) (visible_institutions d uid)
       (visible_investors d uid) uid c"

text \<open>
  \<open>INSERT INTO conversations\<close>: row-level check, NOT NULL, primary key,
  \<open>UNIQUE(institution_id, investor_id)\<close>, the two foreign keys.
\<close>

definition insert_conversation :: "db \<Rightarrow> uuid option \<Rightarrow> conversation \<Rightarrow> error + db" where
  "insert_conversation d uid c =
     (if \<not> conversations_insert_check d uid c then Inl RlsViolation
      else if c_institution_id c = None \<or> c_investor_id c = None then Inl NotNullViolation
      else if c_id c \<in> set (map c_id (conversations d)) then Inl UniqueViolation
      else if (c_institution_id c, c_investor_id c)
              \<in> set (map (\<lambda>x. (c_institution_id x, c_investor_id x)) (conversations d))
        then Inl UniqueViolation
      else if c_institution_id c \<notin> set (map (\<lambda>i. Some (i_id i)) (institutions d))
        then Inl ForeignKeyViolation
      else if c_investor_id c \<notin> set (map (\<lambda>v. Some (inv_id v)) (investors d))
        then Inl ForeignKeyViolation
      else Inr (d\<lparr>conversations := conversations d @ [c]\<rparr>))"

subsection \<open>Donations: insert, update, delete\<close>

text \<open>\<open>NOT NULL\<close> on investor_id, institution_id, amount, status.\<close>

definition donation_not_null :: "donation \<Rightarrow> bool" where
  "donation_not_null x =
     (d_investor_id x \<noteq> None \<and> d_institution_id x \<noteq> None
      \<and> d_amount x \<noteq> None \<and> d_status x \<noteq> None)"

text \<open>\<open>CHECK (amount > 0)\<close> and \<open>CHECK (status IN (...))\<close>; a CHECK over NULL passes.\<close>

definition donation_checks :: "donation \<Rightarrow> bool" where
  "donation_checks x =
     ((case d_amount x of None \<Rightarrow> True | Some a \<Rightarrow> numeric_gt a (Num 0))
      \<and> (case d_status x of None \<Rightarrow> True
          | Some s \<Rightarrow> s \<in> set [''pending'', ''completed'', ''cancelled'', ''failed'']))"

text \<open>\<open>REFERENCES public.investors(id)\<close>, \<open>REFERENCES public.institutions(id)\<close>.\<close>

definition donation_fk :: "db \<Rightarrow> donation \<Rightarrow> bool" where
  "donation_fk d x =
     (d_investor_id x \<in> set (map (\<lambda>v. Some (inv_id v)) (investors d))
      \<and> d_institution_id x \<in> set (map (\<lambda>i. Some (i_id i)) (institutions d)))"

text \<open>"Admins can insert donations", "Investors can create donations" (WITH CHECK).\<close>

definition donations_insert_check :: "db \<Rightarrow> uuid option \<Rightarrow> donation \<Rightarrow> bool" where
  "donations_insert_check d uid x =
     (has_role d uid Admin
      \<or> list_ex (\<lambda>v. Some (inv_id v) = d_investor_id x \<and> Some (inv_user_id v) = uid)
           (visible_investors d uid))"

definition insert_donation :: "db \<Rightarrow> uuid option \<Rightarrow> donation \<Rightarrow> error + db" where
  "insert_donation d uid x =
     (if \<not> donations_insert_check d uid x then Inl RlsViolation
      else if \<not> donation_not_null x then Inl NotNullViolation
      else if \<not> donation_checks x then Inl CheckViolation
      else if d_id x \<in> set (map d_id (donations d)) then Inl UniqueViolation
      else if \<not> donation_fk d x then Inl ForeignKeyViolation
      else Inr (d\<lparr>donations := donations d @ [x]\<rparr>))"

text \<open>"Admins can update all donations" (USING, also the check of the new row).\<close>

definition donations_update_using :: "db \<Rightarrow> uuid option \<Rightarrow> donation \<Rightarrow> bool" where
  "donations_update_using d uid x = has_role d uid Admin"

text \<open>
  The body of an update request: a value for each column it sets. \<open>updated_at\<close> is not
  among them, the trigger overwrites it.
\<close>

record donation_patch =
  set_donation_id :: "uuid option"
  set_investor_id :: "uuid option option"
  set_institution_id :: "uuid option option"
  set_amount :: "pg_numeric option option"
  set_currency :: "string option"
  set_status :: "string option option"
  set_donation_date :: "timestamp option"
  set_message :: "string option option"
  set_donation_created_at :: "timestamp option"

definition apply_donation_patch :: "donation_patch \<Rightarrow> donation \<Rightarrow> donation" where
  "apply_donation_patch pt x =
     x\<lparr>d_id := (case set_donation_id pt of None \<Rightarrow> d_id x | Some v \<Rightarrow> v),
       d_investor_id := (case set_investor_id pt of None \<Rightarrow> d_investor_id x | Some v \<Rightarrow> v),
       d_institution_id :=
         (case set_institution_id pt of None \<Rightarrow> d_institution_id x | Some v \<Rightarrow> v),
       d_amount := (case set_amount pt of None \<Rightarrow> d_amount x | Some v \<Rightarrow> v),
       d_currency := (case set_currency pt of None \<Rightarrow> d_currency x | Some v \<Rightarrow> v),
       d_status := (case set_status pt of None \<Rightarrow> d_status x | Some v \<Rightarrow> v),
       d_donation_date :=
         (case set_donation_date pt of None \<Rightarrow> d_donation_date x | Some v \<Rightarrow> v),
       d_message := (case set_message pt of None \<Rightarrow> d_message x | Some v \<Rightarrow> v),
       d_created_at :=
         (case set_donation_created_at pt of None \<Rightarrow> d_created_at x | Some v \<Rightarrow> v)\<rparr>"

text \<open>\<open>update_updated_at_column\<close> as the BEFORE UPDATE trigger of donations.\<close>

definition update_updated_at_donation :: "timestamp \<Rightarrow> donation \<Rightarrow> donation" where
  "update_updated_at_donation now new = new\<lparr>d_updated_at := now\<rparr>"

text \<open>
  The check of a unique key \<open>key\<close> when the rows \<open>hit\<close> selects become \<open>new\<close>: the
  new rows differ in the key from one another and from the rows left as they are.
\<close>

definition unique_after :: "('a \<Rightarrow> 'k) \<Rightarrow> ('a \<Rightarrow> bool) \<Rightarrow> ('a \<Rightarrow> 'a) \<Rightarrow> 'a list \<Rightarrow> bool" where
  "unique_after key hit new rows =
     (distinct (map key (map new (filter hit rows)))
      \<and> list_all (\<lambda>x. key (new x) \<notin> set (map key (filter (\<lambda>y. \<not> hit y) rows)))
            (filter hit rows))"

definition update_donation ::
  "db \<Rightarrow> uuid option \<Rightarrow> timestamp \<Rightarrow> uuid \<Rightarrow> donation_patch \<Rightarrow> error + db" where
  "update_donation d uid now target pt =
     (let hit = (\<lambda>x. d_id x = target \<and> donations_update_using d uid x);
          new = (\<lambda>x. update_updated_at_donation now (apply_donation_patch pt x));
          changed = map new (filter hit (donations d))
      in if \<not> list_all (donations_update_using d uid) changed then Inl RlsViolation
         else if \<not> list_all donation_not_null changed then Inl NotNullViolation
         else if \<not> list_all donation_checks changed then Inl CheckViolation
         else if \<not> unique_after d_id hit new (donations d) then Inl UniqueViolation
         else if \<not> list_all (donation_fk d) changed then Inl ForeignKeyViolation
         else Inr (d\<lparr>donations := map (\<lambda>x. if hit x then new x else x) (donations d)\<rparr>))"

text \<open>"Admins can delete donations" (USING): hidden rows are skipped.\<close>

definition delete_donation :: "db \<Rightarrow> uuid option \<Rightarrow> uuid \<Rightarrow> error + db" where
  "delete_donation d uid target =
     Inr (d\<lparr>donations := filter (\<lambda>x. \<not> (d_id x = target \<and> has_role d uid Admin)) (donations d)\<rparr>)"

subsection \<open>Institutions and investors: update\<close>

text \<open>
  "Users can update their own institution", "Admins can update all institutions" (USING).
  The policies name no column, so a request may set every column, the key \<open>id\<close>
  included; neither has a WITH CHECK, so USING is also the check of the new row.
\<close>

definition institutions_update_using :: "db \<Rightarrow> uuid option \<Rightarrow> institution \<Rightarrow> bool" where
  "institutions_update_using d uid i = (uid = Some (i_user_id i) \<or> has_role d uid Admin)"

record institution_patch =
  set_i_id :: "uuid option"
  set_i_user_id :: "uuid option"
  set_i_institution_name :: "string option"
  set_i_country :: "string option"
  set_i_city :: "string option"
  set_i_address :: "string option"
  set_i_contact_person :: "string option"
  set_i_contact_position :: "string option option"
  set_i_certificate_url :: "string option option"
  set_i_created_at :: "timestamp option option"

definition apply_institution_patch :: "institution_patch \<Rightarrow> institution \<Rightarrow> institution" where
  "apply_institution_patch pt i =
     i\<lparr>i_id := (case set_i_id pt of None \<Rightarrow> i_id i | Some v \<Rightarrow> v),
       i_user_id := (case set_i_user_id pt of None \<Rightarrow> i_user_id i | Some v \<Rightarrow> v),
       i_institution_name :=
         (case set_i_institution_name pt of None \<Rightarrow> i_institution_name i | Some v \<Rightarrow> v),
       i_country := (case set_i_country pt of None \<Rightarrow> i_country i | Some v \<Rightarrow> v),
       i_city := (case set_i_city pt of None \<Rightarrow> i_city i | Some v \<Rightarrow> v),
       i_address := (case set_i_address pt of None \<Rightarrow> i_address i | Some v \<Rightarrow> v),
       i_contact_person :=
         (case set_i_contact_person pt of None \<Rightarrow> i_contact_person i | Some v \<Rightarrow> v),
       i_contact_position :=
         (case set_i_contact_position pt of None \<Rightarrow> i_contact_position i | Some v \<Rightarrow> v),
       i_certificate_url :=
         (case set_i_certificate_url pt of None \<Rightarrow> i_certificate_url i | Some v \<Rightarrow> v),
       i_created_at := (case set_i_created_at pt of None \<Rightarrow> i_created_at i | Some v \<Rightarrow> v)\<rparr>"

text \<open>
  \<open>UPDATE institutions SET ... WHERE id = target\<close>: the check of the new rows, the
  primary key, \<open>UNIQUE(user_id)\<close>, the reference to profiles, and the references
  \<open>conversations.institution_id\<close> and \<open>donations.institution_id\<close>, which are declared
  without an ON UPDATE action: a key that is referenced must still be there after the
  statement.
\<close>

definition update_institution ::
  "db \<Rightarrow> uuid option \<Rightarrow> uuid \<Rightarrow> institution_patch \<Rightarrow> error + db" where
  "update_institution d uid target pt =
     (let hit = (\<lambda>i. i_id i = target \<and> institutions_update_using d uid i);
          new = apply_institution_patch pt;
          changed = filter hit (institutions d);
          rows' = map (\<lambda>i. if hit i then new i else i) (institutions d)
      in if \<not> list_all (institutions_update_using d uid) (map new changed) then Inl RlsViolation
         else if \<not> unique_after i_id hit new (institutions d) then Inl UniqueViolation
         else if \<not> unique_after i_user_id hit new (institutions d) then Inl UniqueViolation
         else if \<not> list_all (\<lambda>i. i_user_id (new i) \<in> set (map p_id (profiles d))) changed
           then Inl ForeignKeyViolation
         else if \<not> list_all (\<lambda>i. i_id i \<in> set (map i_id rows')
                     \<or> (Some (i_id i) \<notin> set (map c_institution_id (conversations d))
                        \<and> Some (i_id i) \<notin> set (map d_institution_id (donations d)))) changed
           then Inl ForeignKeyViolation
         else Inr (d\<lparr>institutions := rows'\<rparr>))"

text \<open>"Users can update their own investor profile", "Admins can update all investors"
  (USING, also the check of the new row; no column list).\<close>

definition investors_update_using :: "db \<Rightarrow> uuid option \<Rightarrow> investor \<Rightarrow> bool" where
  "investors_update_using d uid v = (uid = Some (inv_user_id v) \<or> has_role d uid Admin)"

record investor_patch =
  set_inv_id :: "uuid option"
  set_inv_user_id :: "uuid option"
  set_inv_investor_type :: "string option"
  set_inv_company_name :: "string option option"
  set_inv_certificate_url :: "string option option"
  set_inv_created_at :: "timestamp option option"

definition apply_investor_patch :: "investor_patch \<Rightarrow> investor \<Rightarrow> investor" where
  "apply_investor_patch pt v =
     v\<lparr>inv_id := (case set_inv_id pt of None \<Rightarrow> inv_id v | Some k \<Rightarrow> k),
       inv_user_id := (case set_inv_user_id pt of None \<Rightarrow> inv_user_id v | Some k \<Rightarrow> k),
       inv_investor_type :=
         (case set_inv_investor_type pt of None \<Rightarrow> inv_investor_type v | Some k \<Rightarrow> k),
       inv_company_name :=
         (case set_inv_company_name pt of None \<Rightarrow> inv_company_name v | Some k \<Rightarrow> k),
       inv_certificate_url :=
         (case set_inv_certificate_url pt of None \<Rightarrow> inv_certificate_url v | Some k \<Rightarrow> k),
       inv_created_at :=
         (case set_inv_created_at pt of None \<Rightarrow> inv_created_at v | Some k \<Rightarrow> k)\<rparr>"

definition update_investor ::
  "db \<Rightarrow> uuid option \<Rightarrow> uuid \<Rightarrow> investor_patch \<Rightarrow> error + db" where
  "update_investor d uid target pt =
     (let hit = (\<lambda>v. inv_id v = target \<and> investors_update_using d uid v);
          new = apply_investor_patch pt;
          changed = filter hit (investors d);
          rows' = map (\<lambda>v. if hit v then new v else v) (investors d)
      in if \<not> list_all (investors_update_using d uid) (map new changed) then Inl RlsViolation
         else if \<not> list_all (\<lambda>v. inv_investor_type (new v)
                     \<in> set [''individual'', ''corporate'', ''foundation'', ''ngo'']) changed
           then Inl CheckViolation
         else if \<not> unique_after inv_id hit new (investors d) then Inl UniqueViolation
         else if \<not> unique_after inv_user_id hit new (investors d) then Inl UniqueViolation
         else if \<not> list_all (\<lambda>v. inv_user_id (new v) \<in> set (map p_id (profiles d))) changed
           then Inl ForeignKeyViolation
         else if \<not> list_all (\<lambda>v. inv_id v \<in> set (map inv_id rows')
                     \<or> (Some (inv_id v) \<notin> set (map c_investor_id (conversations d))
                        \<and> Some (inv_id v) \<notin> set (map d_investor_id (donations d)))) changed
           then Inl ForeignKeyViolation
         else Inr (d\<lparr>investors := rows'\<rparr>))"

subsection \<open>Profile keys, messages and user roles: update, delete\<close>

text \<open>
  \<open>UPDATE profiles SET id = k, ... WHERE id = target\<close>, under the two update policies
  of profiles, which name no column either: the statement of \<open>update_profile\<close> with
  the key among the columns it sets. The new row must pass USING and the two CHECK
  constraints, the key must stay unique, and the references \<open>institutions.user_id\<close>,
  \<open>investors.user_id\<close> and \<open>messages.sender_id\<close> have no ON UPDATE action. The
  reference of the new key to \<open>auth.users\<close> is not checked here, which admits more
  statements, not fewer.
\<close>

definition update_profile_key ::
  "db \<Rightarrow> uuid option \<Rightarrow> timestamp \<Rightarrow> uuid \<Rightarrow> uuid \<Rightarrow> profile_patch \<Rightarrow> error + db" where
  "update_profile_key d uid now target k pt =
     (let hit = (\<lambda>p. p_id p = target \<and> profiles_update_using d uid p);
          new = (\<lambda>p. update_updated_at_column now ((apply_profile_patch pt p)\<lparr>p_id := k\<rparr>));
          changed = filter hit (profiles d);
          rows' = map (\<lambda>p. if hit p then new p else p) (profiles d)
      in if \<not> list_all (profiles_update_using d uid) (map new changed) then Inl RlsViolation
         else if \<not> list_all profile_checks (map new changed) then Inl CheckViolation
         else if \<not> unique_after p_id hit new (profiles d) then Inl UniqueViolation
         else if \<not> list_all (\<lambda>p. p_id p \<in> set (map p_id rows')
                     \<or> (p_id p \<notin> set (map i_user_id (institutions d))
                        \<and> p_id p \<notin> set (map inv_user_id (investors d))
                        \<and> p_id p \<notin> set (map m_sender_id (messages d)))) changed
           then Inl ForeignKeyViolation
         else Inr (d\<lparr>profiles := rows'\<rparr>))"

text \<open>"Users can update read status on messages" (USING, also the check of the new row;
  no column list).\<close>

definition messages_update_using :: "db \<Rightarrow> uuid option \<Rightarrow> message \<Rightarrow> bool" where
  "messages_update_using d uid m =
     (is_institution_in_conversation d uid (m_conversation_id m)
      \<or> is_investor_in_conversation d uid (m_conversation_id m))"

record message_patch =
  set_m_id :: "uuid option"
  set_m_conversation_id :: "uuid option"
  set_m_sender_id :: "uuid option"
  set_m_content :: "string option"
  set_m_read :: "bool option option"
  set_m_created_at :: "timestamp option option"

definition apply_message_patch :: "message_patch \<Rightarrow> message \<Rightarrow> message" where
  "apply_message_patch pt m =
     m\<lparr>m_id := (case set_m_id pt of None \<Rightarrow> m_id m | Some k \<Rightarrow> k),
       m_conversation_id :=
         (case set_m_conversation_id pt of None \<Rightarrow> m_conversation_id m | Some k \<Rightarrow> k),
       m_sender_id := (case set_m_sender_id pt of None \<Rightarrow> m_sender_id m | Some k \<Rightarrow> k),
       m_content := (case set_m_content pt of None \<Rightarrow> m_content m | Some k \<Rightarrow> k),
       m_read := (case set_m_read pt of None \<Rightarrow> m_read m | Some k \<Rightarrow> k),
       m_created_at := (case set_m_created_at pt of None \<Rightarrow> m_created_at m | Some k \<Rightarrow> k)\<rparr>"

text \<open>\<open>UPDATE messages SET ... WHERE id = target\<close>; the timestamp trigger is an insert
  trigger and does not run.\<close>

definition update_message ::
  "db \<Rightarrow> uuid option \<Rightarrow> uuid \<Rightarrow> message_patch \<Rightarrow> error + db" where
  "update_message d uid target pt =
     (let hit = (\<lambda>m. m_id m = target \<and> messages_update_using d uid m);
          new = apply_message_patch pt;
          changed = filter hit (messages d)
      in if \<not> list_all (messages_update_using d uid) (map new changed) then Inl RlsViolation
         else if \<not> unique_after m_id hit new (messages d) then Inl UniqueViolation
         else if \<not> list_all (\<lambda>m. m_conversation_id (new m) \<in> set (map c_id (conversations d))
                     \<and> m_sender_id (new m) \<in> set (map p_id (profiles d))) changed
           then Inl ForeignKeyViolation
         else Inr (d\<lparr>messages := map (\<lambda>m. if hit m then new m else m) (messages d)\<rparr>))"

text \<open>"Admins can update roles", "Admins can delete roles" (USING).\<close>

record user_role_patch =
  set_r_id :: "uuid option"
  set_r_user_id :: "uuid option"
  set_r_role :: "app_role option"
  set_r_created_at :: "timestamp option option"

definition apply_user_role_patch :: "user_role_patch \<Rightarrow> user_role \<Rightarrow> user_role" where
  "apply_user_role_patch pt r =
     r\<lparr>r_id := (case set_r_id pt of None \<Rightarrow> r_id r | Some k \<Rightarrow> k),
       r_user_id := (case set_r_user_id pt of None \<Rightarrow> r_user_id r | Some k \<Rightarrow> k),
       r_role := (case set_r_role pt of None \<Rightarrow> r_role r | Some k \<Rightarrow> k),
       r_created_at := (case set_r_created_at pt of None \<Rightarrow> r_created_at r | Some k \<Rightarrow> k)\<rparr>"

definition update_user_role ::
  "db \<Rightarrow> uuid option \<Rightarrow> uuid \<Rightarrow> user_role_patch \<Rightarrow> error + db" where
  "update_user_role d uid target pt =
     (let hit = (\<lambda>r. r_id r = target \<and> has_role d uid Admin);
          new = apply_user_role_patch pt
      in if \<not> unique_after r_id hit new (user_roles d) then Inl UniqueViolation
         else if \<not> unique_after (\<lambda>r. (r_user_id r, r_role r)) hit new (user_roles d)
           then Inl UniqueViolation
         else Inr (d\<lparr>user_roles := map (\<lambda>r. if hit r then new r else r) (user_roles d)\<rparr>))"

definition delete_user_role :: "db \<Rightarrow> uuid option \<Rightarrow> uuid \<Rightarrow> error + db" where
  "delete_user_role d uid target =
     Inr (d\<lparr>user_roles := filter (\<lambda>r. \<not> (r_id r = target \<and> has_role d uid Admin)) (user_roles d)\<rparr>)"

subsection \<open>Account deletion: the ON DELETE CASCADE chain\<close>

text \<open>
  Deleting the \<open>auth.users\<close> row \<open>u\<close> removes its profile and roles, the institutions
  and investors of that profile, the conversations and donations of those, and the
  messages of those conversations or sent by \<open>u\<close>.
\<close>

definition delete_user :: "db \<Rightarrow> uuid \<Rightarrow> db" where
  "delete_user d u =
     (let dead_inst = map (\<lambda>i. Some (i_id i)) (filter (\<lambda>i. i_user_id i = u) (institutions d));
          dead_inv = map (\<lambda>v. Some (inv_id v)) (filter (\<lambda>v. inv_user_id v = u) (investors d));
          dead_conv = map c_id (filter (\<lambda>c. c_institution_id c \<in> set dead_inst
                                        \<or> c_investor_id c \<in> set dead_inv) (conversations d))
      in \<lparr>profiles = filter (\<lambda>p. p_id p \<noteq> u) (profiles d),
          institutions = filter (\<lambda>i. i_user_id i \<noteq> u) (institutions d),
          investors = filter (\<lambda>v. inv_user_id v \<noteq> u) (investors d),
          conversations = filter (\<lambda>c. c_institution_id c \<notin> set dead_inst
                                      \<and> c_investor_id c \<notin> set dead_inv) (conversations d),
          messages = filter (\<lambda>m. m_sender_id m \<noteq> u \<and> m_conversation_id m \<notin> set dead_conv)
                       (messages d),
          user_roles = filter (\<lambda>r. r_user_id r \<noteq> u) (user_roles d),
          donations = filter (\<lambda>x. d_institution_id x \<notin> set dead_inst
                                  \<and> d_investor_id x \<notin> set dead_inv) (donations d)\<rparr>)"

subsection \<open>Database states reachable through the operations\<close>

text \<open>
  The write statements the policies of the seven tables admit: an INSERT where the table
  has an INSERT policy, an UPDATE where it has an UPDATE policy (of any column, as no
  policy names columns), a DELETE where it has a DELETE policy (user roles and donations
  only), and the deletion of an account with its cascade. Conversations have no UPDATE
  and no DELETE policy, so after the insert only the trigger and the cascade change them.
\<close>

datatype op =
    InsertProfile "uuid option" profile
  | UpdateProfile "uuid option" timestamp uuid profile_patch
  | InsertInstitution "uuid option" institution
  | InsertInvestor "uuid option" investor
  | InsertUserRole "uuid option" user_role
  | InsertConversation "uuid option" conversation
  | InsertMessage "uuid option" timestamp message
  | InsertDonation "uuid option" donation
  | UpdateDonation "uuid option" timestamp uuid donation_patch
  | DeleteDonation "uuid option" uuid
  | DeleteUser uuid
  | UpdateInstitution "uuid option" uuid institution_patch
  | UpdateInvestor "uuid option" uuid investor_patch
  | UpdateProfileKey "uuid option" timestamp uuid uuid profile_patch
  | UpdateMessage "uuid option" uuid message_patch
  | UpdateUserRole "uuid option" uuid user_role_patch
  | DeleteUserRole "uuid option" uuid

fun exec :: "db \<Rightarrow> op \<Rightarrow> error + db" where
  "exec d (InsertProfile uid p) = insert_profile d uid p"
| "exec d (UpdateProfile uid now target pt) = update_profile d uid now target pt"
| "exec d (InsertInstitution uid i) = insert_institution d uid i"
| "exec d (InsertInvestor uid v) = insert_investor d uid v"
| "exec d (InsertUserRole uid r) = insert_user_role d uid r"
| "exec d (InsertConversation uid c) = insert_conversation d uid c"
| "exec d (InsertMessage uid now m) = insert_message d uid now m"
| "exec d (InsertDonation uid x) = insert_donation d uid x"
| "exec d (UpdateDonation uid now target pt) = update_donation d uid now target pt"
| "exec d (DeleteDonation uid target) = delete_donation d uid target"
| "exec d (DeleteUser u) = Inr (delete_user d u)"
| "exec d (UpdateInstitution uid target pt) = update_institution d uid target pt"
| "exec d (UpdateInvestor uid target pt) = update_investor d uid target pt"
| "exec d (UpdateProfileKey uid now target k pt) = update_profile_key d uid now target k pt"
| "exec d (UpdateMessage uid target pt) = update_message d uid target pt"
| "exec d (UpdateUserRole uid target pt) = update_user_role d uid target pt"
| "exec d (DeleteUserRole uid target) = delete_user_role d uid target"

text \<open>A rejected statement leaves the database as it was.\<close>

definition step :: "db \<Rightarrow> op \<Rightarrow> db" where
  "step d x = (case exec d x of Inl e \<Rightarrow> d | Inr d' \<Rightarrow> d')"

definition run :: "op list \<Rightarrow> db" where
  "run ops = foldl step empty_db ops"

subsection \<open>Integrity of a database state\<close>

text \<open>
  What the key, uniqueness, NOT NULL, CHECK and foreign-key constraints of
  institutions, investors, conversations and donations say of a state.
\<close>

definition conv_pair :: "conversation \<Rightarrow> uuid option \<times> uuid option" where
  "conv_pair c = (c_institution_id c, c_investor_id c)"

definition conv_fk :: "db \<Rightarrow> conversation \<Rightarrow> bool" where
  "conv_fk d c =
     (c_institution_id c \<in> set (map (\<lambda>i. Some (i_id i)) (institutions d))
      \<and> c_investor_id c \<in> set (map (\<lambda>v. Some (inv_id v)) (investors d)))"

definition donation_ok :: "db \<Rightarrow> donation \<Rightarrow> bool" where
  "donation_ok d x = (donation_not_null x \<and> donation_checks x \<and> donation_fk d x)"

definition db_inv :: "db \<Rightarrow> bool" where
  "db_inv d =
     (distinct (map i_id (institutions d))
      \<and> distinct (map inv_id (investors d))
      \<and> distinct (map conv_pair (conversations d))
      \<and> list_all (conv_fk d) (conversations d)
      \<and> list_all (donation_ok d) (donations d))"




subsection \<open>Sample rows\<close>

definition mk_profile :: "uuid \<Rightarrow> string \<Rightarrow> string \<Rightarrow> profile" where
  "mk_profile u ut vs = \<lparr>p_id = u, p_email = u @ ''@example.org'', p_full_name = None,
     p_phone = None, p_user_type = ut, p_verification_status = vs,
     p_created_at = Some 0, p_updated_at = Some 0\<rparr>"

definition mk_institution :: "uuid \<Rightarrow> uuid \<Rightarrow> institution" where
  "mk_institution k u = \<lparr>i_id = k, i_user_id = u, i_institution_name = ''School'',
     i_country = ''ZA'', i_city = ''Durban'', i_address = ''1 Main Rd'',
     i_contact_person = ''Head'', i_contact_position = None, i_certificate_url = None,
     i_created_at = Some 0\<rparr>"

definition mk_investor :: "uuid \<Rightarrow> uuid \<Rightarrow> investor" where
  "mk_investor k u = \<lparr>inv_id = k, inv_user_id = u, inv_investor_type = ''individual'',
     inv_company_name = None, inv_certificate_url = None, inv_created_at = Some 0\<rparr>"

definition mk_conversation :: "uuid \<Rightarrow> uuid option \<Rightarrow> uuid option \<Rightarrow> conversation" where
  "mk_conversation k i v = \<lparr>c_id = k, c_institution_id = i, c_investor_id = v,
     c_created_at = Some 1, c_updated_at = Some 1\<rparr>"

definition mk_message :: "uuid \<Rightarrow> uuid \<Rightarrow> uuid \<Rightarrow> message" where
  "mk_message k c u = \<lparr>m_id = k, m_conversation_id = c, m_sender_id = u,
     m_content = ''hello'', m_read = Some False, m_created_at = Some 2\<rparr>"

definition mk_donation ::
  "uuid \<Rightarrow> uuid option \<Rightarrow> uuid option \<Rightarrow> pg_numeric option \<Rightarrow> string option \<Rightarrow> donation"
  where
  "mk_donation k v i a s = \<lparr>d_id = k, d_investor_id = v, d_institution_id = i,
     d_amount = a, d_currency = ''USD'', d_status = s, d_donation_date = 3,
     d_message = None, d_created_at = 3, d_updated_at = 3\<rparr>"

text \<open>
  A verified institution owner \<open>u1\<close> with institution \<open>i1\<close>, a verified investor \<open>u2\<close>
  with investor row \<open>v1\<close>, a pending investor \<open>u3\<close> with investor row \<open>v2\<close>, and one
  conversation \<open>c1\<close> between \<open>i1\<close> and \<open>v1\<close>. Nobody is an admin.
\<close>

definition sample_db :: db where
  "sample_db = \<lparr>
     profiles = [mk_profile ''u1'' ''institution'' ''verified'',
                 mk_profile ''u2'' ''investor'' ''verified'',
                 mk_profile ''u3'' ''investor'' ''pending''],
     institutions = [mk_institution ''i1'' ''u1''],
     investors = [mk_investor ''v1'' ''u2'', mk_investor ''v2'' ''u3''],
     conversations = [mk_conversation ''c1'' (Some ''i1'') (Some ''v1'')],
     messages = [],
     user_roles = [],
     donations = []\<rparr>"

subsection \<open>The access rules in the specification's words\<close>

text \<open>
  A conversation may be created when the owning profile of the institution and the
  owning profile of the investor are both verified and the caller is one of the two; a
  message may be sent when the caller is its sender and a verified participant of its
  conversation, on the institution side or the investor side.
\<close>

definition spec_may_create_conversation :: "db \<Rightarrow> uuid option \<Rightarrow> conversation \<Rightarrow> bool" where
  "spec_may_create_conversation d uid c =
     list_ex (\<lambda>i. list_ex (\<lambda>v.
         Some (i_id i) = c_institution_id c \<and> Some (inv_id v) = c_investor_id c
         \<and> list_ex (\<lambda>p. p_id p = i_user_id i \<and> p_verification_status p = ''verified'') (profiles d)
         \<and> list_ex (\<lambda>p. p_id p = inv_user_id v \<and> p_verification_status p = ''verified'') (profiles d)
         \<and> (uid = Some (i_user_id i) \<or> uid = Some (inv_user_id v)))
       (investors d)) (institutions d)"

definition spec_may_send_message :: "db \<Rightarrow> uuid option \<Rightarrow> message \<Rightarrow> bool" where
  "spec_may_send_message d uid m =
     (uid = Some (m_sender_id m)
      \<and> list_ex (\<lambda>p. Some (p_id p) = uid \<and> p_verification_status p = ''verified'') (profiles d)
      \<and> list_ex (\<lambda>c. c_id c = m_conversation_id m
           \<and> (list_ex (\<lambda>i. c_institution_id c = Some (i_id i) \<and> Some (i_user_id i) = uid)
                 (institutions d)
               \<or> list_ex (\<lambda>v. c_investor_id c = Some (inv_id v) \<and> Some (inv_user_id v) = uid)
                 (investors d)))
         (conversations d))"

subsection \<open>Sample states and runs\<close>

text \<open>\<open>sample_db\<close> before its first conversation.\<close>

definition two_party_db :: db where
  "two_party_db = sample_db\<lparr>conversations := []\<rparr>"

text \<open>\<open>sample_db\<close> with a second conversation, between \<open>i1\<close> and the investor row of
  the pending user \<open>u3\<close>.\<close>

definition pending_party_db :: db where
  "pending_party_db = sample_db\<lparr>conversations :=
     [mk_conversation ''c1'' (Some ''i1'') (Some ''v1''),
      mk_conversation ''c2'' (Some ''i1'') (Some ''v2'')]\<rparr>"

text \<open>The body \<open>{ verification_status: 'verified' }\<close> of an update request.\<close>

definition verify_patch :: profile_patch where
  "verify_patch = \<lparr>set_email = None, set_full_name = None, set_phone = None,
     set_user_type = None, set_verification_status = Some ''verified''\<rparr>"

text \<open>
  A run: \<open>u0\<close> signs up with user type admin, \<open>u1\<close> and \<open>u2\<close> sign up and add their
  institution and investor rows, \<open>u1\<close> gives the own institution the key \<open>i1\<close>,
  \<open>u0\<close> verifies both and grants \<open>u1\<close> the admin role, \<open>u1\<close> opens a conversation
  and retries it twice, and then \<open>u1\<close> and \<open>u2\<close> try to give their rows new keys.
\<close>

definition no_profile_change :: profile_patch where
  "no_profile_change = \<lparr>set_email = None, set_full_name = None, set_phone = None,
     set_user_type = None, set_verification_status = None\<rparr>"

definition no_institution_change :: institution_patch where
  "no_institution_change = \<lparr>set_i_id = None, set_i_user_id = None,
     set_i_institution_name = None, set_i_country = None, set_i_city = None,
     set_i_address = None, set_i_contact_person = None, set_i_contact_position = None,
     set_i_certificate_url = None, set_i_created_at = None\<rparr>"

definition no_investor_change :: investor_patch where
  "no_investor_change = \<lparr>set_inv_id = None, set_inv_user_id = None,
     set_inv_investor_type = None, set_inv_company_name = None,
     set_inv_certificate_url = None, set_inv_created_at = None\<rparr>"

definition sample_ops :: "op list" where
  "sample_ops =
    [InsertProfile (Some ''u0'') (mk_profile ''u0'' ''admin'' ''pending''),
     InsertProfile (Some ''u1'') (mk_profile ''u1'' ''institution'' ''pending''),
     InsertProfile (Some ''u2'') (mk_profile ''u2'' ''investor'' ''pending''),
     InsertInstitution (Some ''u1'') (mk_institution ''i0'' ''u1''),
     InsertInvestor (Some ''u2'') (mk_investor ''v1'' ''u2''),
     UpdateInstitution (Some ''u1'') ''i0'' (no_institution_change\<lparr>set_i_id := Some ''i1''\<rparr>),
     UpdateProfile (Some ''u0'') 4 ''u1''
       (no_profile_change\<lparr>set_verification_status := Some ''verified''\<rparr>),
     UpdateProfile (Some ''u0'') 5 ''u2''
       (no_profile_change\<lparr>set_verification_status := Some ''verified''\<rparr>),
     InsertUserRole (Some ''u0'') \<lparr>r_id = ''r1'', r_user_id = ''u1'', r_role = Admin,
        r_created_at = Some 6\<rparr>,
     InsertConversation (Some ''u1'') (mk_conversation ''c1'' (Some ''i1'') (Some ''v1'')),
     InsertConversation (Some ''u1'') (mk_conversation ''c2'' (Some ''i1'') (Some ''v1'')),
     InsertConversation (Some ''u1'') (mk_conversation ''c3'' (Some ''i1'') None),
     UpdateInstitution (Some ''u1'') ''i1'' (no_institution_change\<lparr>set_i_id := Some ''i2''\<rparr>),
     UpdateInvestor (Some ''u2'') ''v1'' (no_investor_change\<lparr>set_inv_id := Some ''v2''\<rparr>)]"

text \<open>
  A run on donations: \<open>u1\<close> and \<open>u2\<close> sign up and add their institution and investor
  rows; the investor \<open>u2\<close>, who is no admin, pledges a donation of amount NaN, then one
  of amount 0, one of a status that is not listed, and one to an institution that does
  not exist.
\<close>

definition donation_ops :: "op list" where
  "donation_ops =
    [InsertProfile (Some ''u1'') (mk_profile ''u1'' ''institution'' ''pending''),
     InsertProfile (Some ''u2'') (mk_profile ''u2'' ''investor'' ''pending''),
     InsertInstitution (Some ''u1'') (mk_institution ''i1'' ''u1''),
     InsertInvestor (Some ''u2'') (mk_investor ''v1'' ''u2''),
     InsertDonation (Some ''u2'')
       (mk_donation ''d1'' (Some ''v1'') (Some ''i1'') (Some NumNaN) (Some ''pending'')),
     InsertDonation (Some ''u2'')
       (mk_donation ''d2'' (Some ''v1'') (Some ''i1'') (Some (Num 0)) (Some ''pending'')),
     InsertDonation (Some ''u2'')
       (mk_donation ''d3'' (Some ''v1'') (Some ''i1'') (Some (Num 7)) (Some ''refunded'')),
     InsertDonation (Some ''u2'')
       (mk_donation ''d4'' (Some ''v1'') (Some ''i9'') (Some (Num 7)) (Some ''pending''))]"

section \<open>The client components\<close>

text \<open>
  A handler is a function of the component state and of the responses the backend gives
  to its requests, in the order the handler makes them; it returns the new state and the
  trace of what it did: requests sent, toasts raised, navigations. A response \<open>{ data,
  error }\<close> is a record of two options.
\<close>

record toast =
  t_title :: string
  t_description :: string
  t_variant :: "string option"

datatype request =
    SelectConversations
  | InsertMessageRow string string string
  | SelectOwnInvestor string
  | SelectOwnInstitution string
  | FindConversation string string
  | InsertConversationRow string string
  | GetUser

datatype effect = Call request | Toast toast | Navigate string

record 'a response =
  data :: "'a option"
  error :: "string option"

text \<open>The objects of \<open>conversations: any[]\<close>: property lists; a missing property reads
  as \<open>undefined\<close>.\<close>

datatype js_val = JUndefined | JNull | JBool bool | JStr string

type_synonym js_obj = "(string \<times> js_val) list"

definition js_get :: "js_obj \<Rightarrow> string \<Rightarrow> js_val" where
  "js_get obj k = (case map_of obj k of None \<Rightarrow> JUndefined | Some v \<Rightarrow> v)"

subsection \<open>Messages (src/unnamed/part\_000)\<close>

record inst_embed =
  ie_id :: string
  ie_institution_name :: string
  ie_user_id :: string

record inv_embed =
  ve_id :: string
  ve_company_name :: "string option"
  ve_investor_type :: string
  ve_user_id :: string

text \<open>A row of the \<open>loadConversations\<close> query, with its two embedded rows.\<close>

record conv_row =
  cr_id :: string
  cr_updated_at :: string
  cr_institutions :: inst_embed
  cr_investors :: inv_embed

record messages_state =
  st_currentUserId :: "string option"
  st_userType :: "string option"
  st_isVerified :: bool
  st_conversations :: "js_obj list"
  st_selectedConversationId :: "string option"
  st_newMessage :: string
  st_searchQuery :: string
  st_loading :: bool
  st_showNewConversation :: bool
  st_selectedPartner :: string

text \<open>The callback of \<open>data?.map(...)\<close> in \<open>loadConversations\<close>.\<close>

definition format_conversation :: "string option \<Rightarrow> conv_row \<Rightarrow> js_obj" where
  "format_conversation currentUserId conv =
     (let isInstitution = (Some (ie_user_id (cr_institutions conv)) = currentUserId)
      in [(''id'', JStr (cr_id conv)),
          (''other_party_name'',
             JStr (if isInstitution
                   then (case ve_company_name (cr_investors conv) of
                           None \<Rightarrow> ''Investor''
                         | Some n \<Rightarrow> if n = [] then ''Investor'' else n)
                   else ie_institution_name (cr_institutions conv))),
          (''other_party_type'', JStr (if isInstitution then ''investor'' else ''institution'')),
          (''updated_at'', JStr (cr_updated_at conv)),
          (''is_online'', JBool False)])"

definition loadConversations ::
  "messages_state \<Rightarrow> conv_row list response \<Rightarrow> messages_state \<times> effect list" where
  "loadConversations st res =
     (case error res of
        Some msg \<Rightarrow>
          (st, [Call SelectConversations,
                Toast \<lparr>t_title = ''Error loading conversations'', t_description = msg,
                       t_variant = Some ''destructive''\<rparr>])
      | None \<Rightarrow>
          (st\<lparr>st_conversations :=
                (case data res of None \<Rightarrow> []
                 | Some rows \<Rightarrow> map (format_conversation (st_currentUserId st)) rows)\<rparr>,
           [Call SelectConversations]))"

text \<open>\<open>String.prototype.trim\<close> on the ASCII white space.\<close>

definition is_space :: "char \<Rightarrow> bool" where
  "is_space ch = (ch \<in> set [CHR '' '', CHR 0x09, CHR 0x0A, CHR 0x0B, CHR 0x0C, CHR 0x0D])"

definition js_trim :: "string \<Rightarrow> string" where
  "js_trim s = rev (dropWhile is_space (rev (dropWhile is_space s)))"

text \<open>A string or null that is truthy: neither null nor empty.\<close>

definition truthy :: "string option \<Rightarrow> bool" where
  "truthy x = (case x of None \<Rightarrow> False | Some s \<Rightarrow> s \<noteq> [])"

text \<open>
  \<open>handleSendMessage\<close>: \<open>ins\<close> answers the insert, \<open>reload\<close> the \<open>loadConversations()\<close>
  that follows a successful insert.
\<close>

definition handleSendMessage ::
  "messages_state \<Rightarrow> unit response \<Rightarrow> conv_row list response \<Rightarrow> messages_state \<times> effect list"
  where
  "handleSendMessage st ins reload =
     (if js_trim (st_newMessage st) = [] \<or> \<not> truthy (st_selectedConversationId st)
         \<or> \<not> truthy (st_currentUserId st)
      then (st, [])
      else
        let call = Call (InsertMessageRow (the (st_selectedConversationId st))
                     (the (st_currentUserId st)) (js_trim (st_newMessage st)))
        in (case error ins of
              Some msg \<Rightarrow>
                (st, [call, Toast \<lparr>t_title = ''Error sending message'', t_description = msg,
                                   t_variant = Some ''destructive''\<rparr>])
            | None \<Rightarrow>
                (let (st', effs) = loadConversations (st\<lparr>st_newMessage := []\<rparr>) reload
                 in (st', call # effs))))"

text \<open>
  \<open>handleCreateConversation\<close>: \<open>own\<close> answers the lookup of the caller's own investor
  or institution id, \<open>ins\<close> the insert (its data is the id of the new row), \<open>reload\<close>
  the \<open>loadConversations()\<close> after it. The \<open>find\<close> reads \<open>institution_id\<close> or
  \<open>investor_id\<close> of the objects held in \<open>conversations\<close>.
\<close>

definition find_existing :: "messages_state \<Rightarrow> js_obj option" where
  "find_existing st =
     find (\<lambda>conv. if st_userType st = Some ''investor''
                   then js_get conv ''institution_id'' = JStr (st_selectedPartner st)
                   else js_get conv ''investor_id'' = JStr (st_selectedPartner st))
       (st_conversations st)"

definition js_string :: "js_val \<Rightarrow> string option" where
  "js_string v = (case v of JStr s \<Rightarrow> Some s | _ \<Rightarrow> None)"

definition handleCreateConversation ::
  "messages_state \<Rightarrow> string response \<Rightarrow> string response \<Rightarrow> conv_row list response
     \<Rightarrow> messages_state \<times> effect list" where
  "handleCreateConversation st own ins reload =
     (if st_selectedPartner st = [] \<or> \<not> truthy (st_currentUserId st)
         \<or> \<not> truthy (st_userType st)
      then (st, [])
      else
        (case find_existing st of
           Some existingConv \<Rightarrow>
             (st\<lparr>st_selectedConversationId := js_string (js_get existingConv ''id''),
                 st_showNewConversation := False,
                 st_selectedPartner := []\<rparr>,
              [Toast \<lparr>t_title = ''Conversation exists'',
                      t_description = ''Opening existing conversation'', t_variant = None\<rparr>])
         | None \<Rightarrow>
             (let ownId = (case data own of None \<Rightarrow> [] | Some k \<Rightarrow> k);
                  lookup = (if st_userType st = Some ''investor''
                            then Call (SelectOwnInvestor (the (st_currentUserId st)))
                            else Call (SelectOwnInstitution (the (st_currentUserId st))));
                  investorId = (if st_userType st = Some ''investor''
                                then ownId else st_selectedPartner st);
                  institutionId = (if st_userType st = Some ''investor''
                                   then st_selectedPartner st else ownId);
                  calls = [lookup, Call (InsertConversationRow investorId institutionId)]
              in (case error ins of
                    Some msg \<Rightarrow>
                      (st, calls @ [Toast \<lparr>t_title = ''Error'', t_description = msg,
                                           t_variant = Some ''destructive''\<rparr>])
                  | None \<Rightarrow>
                      (let ok = Toast \<lparr>t_title = ''Success'',
                                  t_description = ''Conversation created successfully'',
                                  t_variant = None\<rparr>;
                           (st', effs) = loadConversations
                              (st\<lparr>st_showNewConversation := False, st_selectedPartner := []\<rparr>)
                              reload
                       in (case data ins of
                             Some newId \<Rightarrow>
                               (st'\<lparr>st_selectedConversationId := Some newId\<rparr>,
                                calls @ [ok] @ effs)
                           | None \<Rightarrow>
                               (st', calls @ [ok] @ effs @
                                  [Toast \<lparr>t_title = ''Error'',
                                     t_description = ''Cannot read properties of null'',
                                     t_variant = Some ''destructive''\<rparr>])))))))"

text \<open>The guard of \<open>handleSendMessage\<close>, its request, and a destructive toast.\<close>

definition can_send :: "messages_state \<Rightarrow> bool" where
  "can_send st = (js_trim (st_newMessage st) \<noteq> [] \<and> truthy (st_selectedConversationId st)
     \<and> truthy (st_currentUserId st))"

definition error_toast :: "string \<Rightarrow> string \<Rightarrow> effect" where
  "error_toast title msg = Toast \<lparr>t_title = title, t_description = msg,
     t_variant = Some ''destructive''\<rparr>"

definition send_call :: "messages_state \<Rightarrow> effect" where
  "send_call st = Call (InsertMessageRow (the (st_selectedConversationId st))
     (the (st_currentUserId st)) (js_trim (st_newMessage st)))"

text \<open>
  A state with a draft in an open conversation; a row of the conversations query; and
  the state after that row was loaded and the institution \<open>i1\<close> of that very
  conversation was picked in the new-conversation dialog.
\<close>

definition draft_state :: messages_state where
  "draft_state = \<lparr>st_currentUserId = Some ''u2'', st_userType = Some ''investor'',
     st_isVerified = True, st_conversations = [], st_selectedConversationId = Some ''c1'',
     st_newMessage = '' hi '', st_searchQuery = [], st_loading = False,
     st_showNewConversation = False, st_selectedPartner = []\<rparr>"

definition school_row :: conv_row where
  "school_row = \<lparr>cr_id = ''c1'', cr_updated_at = ''2025-11-07T14:17:02Z'',
     cr_institutions = \<lparr>ie_id = ''i1'', ie_institution_name = ''School'', ie_user_id = ''u1''\<rparr>,
     cr_investors = \<lparr>ve_id = ''v1'', ve_company_name = None, ve_investor_type = ''individual'',
       ve_user_id = ''u2''\<rparr>\<rparr>"

definition partner_chosen :: messages_state where
  "partner_chosen =
     (fst (loadConversations (draft_state\<lparr>st_newMessage := []\<rparr>)
             \<lparr>data = Some [school_row], error = None\<rparr>))
       \<lparr>st_selectedConversationId := None, st_showNewConversation := True,
        st_selectedPartner := ''i1''\<rparr>"

subsection \<open>InstitutionsList (src/components/dashboard/investor)\<close>

text \<open>
  \<open>handleContactInstitution\<close>: \<open>user\<close> is the id \<open>auth.getUser()\<close> gives, \<open>investor\<close>
  answers the lookup of the caller's investor id, \<open>existing\<close> the query for a
  conversation of that investor with the institution, \<open>ins\<close> the insert.
\<close>

definition handleContactInstitution ::
  "string \<Rightarrow> string option \<Rightarrow> string response \<Rightarrow> string response \<Rightarrow> string response
     \<Rightarrow> effect list" where
  "handleContactInstitution institutionId user investor existing ins =
     (case user of
        None \<Rightarrow> [Call GetUser,
                 Toast \<lparr>t_title = ''Error'', t_description = ''Not authenticated'',
                        t_variant = Some ''destructive''\<rparr>]
      | Some u \<Rightarrow>
          [Call GetUser, Call (SelectOwnInvestor u)] @
          (if error investor \<noteq> None \<or> data investor = None
           then [Toast \<lparr>t_title = ''Profile required'',
                   t_description = ''Please complete your investor profile first.'',
                   t_variant = Some ''destructive''\<rparr>]
           else
             Call (FindConversation (the (data investor)) institutionId) #
             (case data existing of
                Some convId \<Rightarrow> [Navigate (''/messages?conversation='' @ convId)]
              | None \<Rightarrow>
                  Call (InsertConversationRow (the (data investor)) institutionId) #
                  (case error ins of
                     Some msg \<Rightarrow> [Toast \<lparr>t_title = ''Error'', t_description = msg,
                                         t_variant = Some ''destructive''\<rparr>]
                   | None \<Rightarrow>
                       (case data ins of
                          Some newId \<Rightarrow> [Navigate (''/messages?conversation='' @ newId)]
                        | None \<Rightarrow> [Toast \<lparr>t_title = ''Error'',
                                     t_description = ''Cannot read properties of null'',
                                     t_variant = Some ''destructive''\<rparr>])))))"

subsection \<open>JavaScript numbers\<close>

text \<open>
  The finite values are rationals (the rounding of IEEE doubles is not modelled); a
  division by zero gives an infinity or NaN, as in JavaScript, and the operations carry
  them on.
\<close>

datatype jsnum = Fin rat | PosInf | NegInf | NaN

definition js_div :: "rat \<Rightarrow> rat \<Rightarrow> jsnum" where
  "js_div a b =
     (if b = 0 then (if a = 0 then NaN else if a > 0 then PosInf else NegInf)
      else Fin (a / b))"

fun js_neg :: "jsnum \<Rightarrow> jsnum" where
  "js_neg (Fin a) = Fin (- a)"
| "js_neg PosInf = NegInf"
| "js_neg NegInf = PosInf"
| "js_neg NaN = NaN"

fun js_add :: "jsnum \<Rightarrow> jsnum \<Rightarrow> jsnum" where
  "js_add (Fin a) (Fin b) = Fin (a + b)"
| "js_add NaN y = NaN"
| "js_add x NaN = NaN"
| "js_add PosInf NegInf = NaN"
| "js_add NegInf PosInf = NaN"
| "js_add PosInf y = PosInf"
| "js_add x PosInf = PosInf"
| "js_add NegInf y = NegInf"
| "js_add x NegInf = NegInf"

definition js_sub :: "jsnum \<Rightarrow> jsnum \<Rightarrow> jsnum" where
  "js_sub x y = js_add x (js_neg y)"

text \<open>Multiplication by a finite factor.\<close>

fun js_scale :: "jsnum \<Rightarrow> rat \<Rightarrow> jsnum" where
  "js_scale (Fin a) k = Fin (a * k)"
| "js_scale NaN k = NaN"
| "js_scale PosInf k = (if k = 0 then NaN else if k > 0 then PosInf else NegInf)"
| "js_scale NegInf k = (if k = 0 then NaN else if k > 0 then NegInf else PosInf)"

text \<open>\<open>Math.round\<close>: the nearest integer, a half rounded up.\<close>

fun js_round :: "jsnum \<Rightarrow> jsnum" where
  "js_round (Fin a) = Fin (of_int \<lfloor>a + 1 / 2\<rfloor>)"
| "js_round x = x"

text \<open>\<open>Math.min\<close> and \<open>Math.max\<close>: NaN if an argument is NaN.\<close>

fun js_min :: "jsnum \<Rightarrow> jsnum \<Rightarrow> jsnum" where
  "js_min NaN y = NaN"
| "js_min x NaN = NaN"
| "js_min NegInf y = NegInf"
| "js_min x NegInf = NegInf"
| "js_min PosInf y = y"
| "js_min x PosInf = x"
| "js_min (Fin a) (Fin b) = Fin (min a b)"

fun js_max :: "jsnum \<Rightarrow> jsnum \<Rightarrow> jsnum" where
  "js_max NaN y = NaN"
| "js_max x NaN = NaN"
| "js_max PosInf y = PosInf"
| "js_max x PosInf = PosInf"
| "js_max NegInf y = y"
| "js_max x NegInf = x"
| "js_max (Fin a) (Fin b) = Fin (max a b)"

subsection \<open>InstitutionAnalytics (src/unnamed/part\_001)\<close>

record an_conversation =
  ac_id :: string
  ac_investor_id :: "string option"
  ac_institution_id :: string
  ac_created_at :: string

record an_message =
  am_id :: string
  am_conversation_id :: string
  am_created_at :: string
  am_read :: "bool option"

text \<open>
  The fields of \<open>metrics\<close> that do not read the clock; \<open>trend\<close>, \<open>donorTrend\<close> and
  \<open>messagesPerMonth\<close> bucket the rows by the current month and feed none of these.
\<close>

record analytics_metrics =
  totalConversations :: nat
  activeInvestors :: nat
  totalMessages :: nat
  unreadMessages :: nat
  avgMessagesPerConversation :: jsnum
  engagementScore :: jsnum

text \<open>\<open>Number(x.toFixed(1))\<close>.\<close>

fun to_fixed_1 :: "jsnum \<Rightarrow> jsnum" where
  "to_fixed_1 (Fin a) = Fin (of_int \<lfloor>a * 10 + 1 / 2\<rfloor> / 10)"
| "to_fixed_1 x = x"

definition metrics :: "an_conversation list \<Rightarrow> an_message list \<Rightarrow> analytics_metrics" where
  "metrics convs msgs =
     (let totalConversations = length convs;
          activeInvestors = card (set (filter truthy (map ac_investor_id convs)));
          totalMessages = length msgs;
          unreadMessages = length (filter (\<lambda>m. am_read m \<noteq> Some True) msgs);
          avgMessagesPerConversation =
            (if totalConversations \<noteq> 0
             then js_div (of_nat totalMessages) (of_nat totalConversations) else Fin 0);
          engagementScore =
            js_min (Fin 100) (js_round
              (js_sub
                 (js_add (js_add (Fin (of_nat activeInvestors * 5))
                                 (js_scale avgMessagesPerConversation 10))
                         (Fin (of_nat totalConversations * 2)))
                 (Fin (of_nat unreadMessages))))
      in \<lparr>totalConversations = totalConversations,
          activeInvestors = activeInvestors,
          totalMessages = totalMessages,
          unreadMessages = unreadMessages,
          avgMessagesPerConversation = to_fixed_1 avgMessagesPerConversation,
          engagementScore = js_max (Fin 0) engagementScore\<rparr>)"

text \<open>An unread message, and a conversation with no investor.\<close>

definition unread_message :: an_message where
  "unread_message = \<lparr>am_id = ''m1'', am_conversation_id = ''c1'',
     am_created_at = ''2025-11-07'', am_read = Some False\<rparr>"

definition bare_conversation :: an_conversation where
  "bare_conversation = \<lparr>ac_id = ''c1'', ac_investor_id = None, ac_institution_id = ''i1'',
     ac_created_at = ''2025-11-07''\<rparr>"

subsection \<open>InstitutionReports (src/unnamed/part\_002)\<close>

text \<open>
  The arithmetic of doubles. An operation on two finite numbers gives their exact
  result rounded to a double, which is an infinity when the result is out of range; the
  rounding is the parameter \<open>rnd\<close> of the operations, so that what is proved holds for
  the rounding of IEEE 754 as for any other. The length of an array is a number that
  needs no rounding.
\<close>

type_synonym rounding = "rat \<Rightarrow> jsnum"

fun dbl_add :: "rounding \<Rightarrow> jsnum \<Rightarrow> jsnum \<Rightarrow> jsnum" where
  "dbl_add rnd (Fin a) (Fin b) = rnd (a + b)"
| "dbl_add rnd NaN y = NaN"
| "dbl_add rnd x NaN = NaN"
| "dbl_add rnd PosInf NegInf = NaN"
| "dbl_add rnd NegInf PosInf = NaN"
| "dbl_add rnd PosInf y = PosInf"
| "dbl_add rnd x PosInf = PosInf"
| "dbl_add rnd NegInf y = NegInf"
| "dbl_add rnd x NegInf = NegInf"

text \<open>\<open>x / b\<close> for a finite divisor \<open>b\<close>; a zero divisor is the positive zero.\<close>

fun dbl_quot :: "rounding \<Rightarrow> jsnum \<Rightarrow> rat \<Rightarrow> jsnum" where
  "dbl_quot rnd (Fin a) b =
     (if b = 0 then (if a = 0 then NaN else if a > 0 then PosInf else NegInf)
      else rnd (a / b))"
| "dbl_quot rnd PosInf b = (if b < 0 then NegInf else PosInf)"
| "dbl_quot rnd NegInf b = (if b < 0 then PosInf else NegInf)"
| "dbl_quot rnd NaN b = NaN"

text \<open>\<open>x * k\<close> for a finite factor \<open>k\<close>.\<close>

fun dbl_scale :: "rounding \<Rightarrow> jsnum \<Rightarrow> rat \<Rightarrow> jsnum" where
  "dbl_scale rnd (Fin a) k = rnd (a * k)"
| "dbl_scale rnd NaN k = NaN"
| "dbl_scale rnd PosInf k = (if k = 0 then NaN else if k > 0 then PosInf else NegInf)"
| "dbl_scale rnd NegInf k = (if k = 0 then NaN else if k > 0 then NegInf else PosInf)"

text \<open>
  A division as the handler performs it. JavaScript goes on with the infinity or NaN of
  \<open>dbl_quot\<close> when the divisor is zero; the model marks that event, so that a theorem
  can say that it does not occur.
\<close>

datatype zero_divisor = ZeroDivisor

definition dbl_div :: "rounding \<Rightarrow> jsnum \<Rightarrow> rat \<Rightarrow> zero_divisor + jsnum" where
  "dbl_div rnd x b = (if b = 0 then Inl ZeroDivisor else Inr (dbl_quot rnd x b))"

text \<open>
  The rows are \<open>any[]\<close>. The column \<open>amount\<close> comes over JSON as a number, as a
  string for the values of \<open>numeric\<close> that JSON has no number for, or as null. \<open>+\<close>
  adds two numbers and otherwise concatenates, \<open>/\<close> converts its operand to a number.
  The conversions between numbers and strings are parameters like the rounding.
\<close>

datatype js_amount = ANum jsnum | AStr string

record js_arith =
  rnd :: rounding
  num_str :: "jsnum \<Rightarrow> string"
  str_num :: "string \<Rightarrow> jsnum"

definition js_plus :: "js_arith \<Rightarrow> js_amount \<Rightarrow> js_amount \<Rightarrow> js_amount" where
  "js_plus J x y =
     (case (x, y) of
        (ANum a, ANum b) \<Rightarrow> ANum (dbl_add (rnd J) a b)
      | (ANum a, AStr t) \<Rightarrow> AStr (num_str J a @ t)
      | (AStr s, ANum b) \<Rightarrow> AStr (s @ num_str J b)
      | (AStr s, AStr t) \<Rightarrow> AStr (s @ t))"

definition to_number :: "js_arith \<Rightarrow> js_amount \<Rightarrow> jsnum" where
  "to_number J x = (case x of ANum a \<Rightarrow> a | AStr s \<Rightarrow> str_num J s)"

text \<open>A donation row as \<open>processReportData\<close> reads it: \<open>amount\<close> and \<open>donor_id\<close>.\<close>

record report_donation =
  rd_amount :: "js_amount option"
  rd_donor_id :: "string option"

text \<open>\<open>d.amount || 0\<close>: null, 0, NaN and the empty string are falsy.\<close>

definition amount_or_zero :: "report_donation \<Rightarrow> js_amount" where
  "amount_or_zero d =
     (case rd_amount d of
        None \<Rightarrow> ANum (Fin 0)
      | Some (ANum NaN) \<Rightarrow> ANum (Fin 0)
      | Some (ANum (Fin a)) \<Rightarrow> (if a = 0 then ANum (Fin 0) else ANum (Fin a))
      | Some (AStr s) \<Rightarrow> (if s = [] then ANum (Fin 0) else AStr s)
      | Some x \<Rightarrow> x)"

text \<open>\<open>donations.reduce((sum, d) => sum + (d.amount || 0), 0)\<close>.\<close>

definition sum_amounts :: "js_arith \<Rightarrow> report_donation list \<Rightarrow> js_amount" where
  "sum_amounts J dons = foldl (\<lambda>sum d. js_plus J sum (amount_or_zero d)) (ANum (Fin 0)) dons"

text \<open>
  The fields of \<open>ReportData\<close> computed in \<open>processReportData\<close> itself; the three
  lists come from helpers that read the clock.
\<close>

record report_data =
  totalDonations :: nat
  totalAmount :: js_amount
  averageDonation :: jsnum
  activeDonors :: nat
  conversionRate :: jsnum

definition processReportData ::
  "js_arith \<Rightarrow> report_donation list \<Rightarrow> 'c list \<Rightarrow> 'm list \<Rightarrow> zero_divisor + report_data" where
  "processReportData J dons convs msgs =
     (let totalDonations = length dons;
          totalAmount = sum_amounts J dons
      in case (if totalDonations > 0
               then dbl_div (rnd J) (to_number J totalAmount) (of_nat totalDonations)
               else Inr (Fin 0)) of
           Inl z \<Rightarrow> Inl z
         | Inr average \<Rightarrow>
             (let averageDonation = average;
                  activeDonors = card (set (map rd_donor_id dons))
              in case (if length convs > 0
                       then (case dbl_div (rnd J) (Fin (of_nat totalDonations))
                                   (of_nat (length convs))
                             of Inl z \<Rightarrow> Inl z | Inr q \<Rightarrow> Inr (dbl_scale (rnd J) q 100))
                       else Inr (Fin 0)) of
                   Inl z \<Rightarrow> Inl z
                 | Inr rate \<Rightarrow>
                     (let conversionRate = rate
                      in Inr \<lparr>totalDonations = totalDonations,
                              totalAmount = totalAmount,
                              averageDonation = averageDonation,
                              activeDonors = activeDonors,
                              conversionRate = conversionRate\<rparr>)))"

text \<open>
  Arithmetic to try the handler on: exact, and exact up to the largest double and
  infinite beyond it; the conversions give \<open>0\<close> for the number 0 and NaN for a string
  that is no numeral, which is all the sample rows need.
\<close>

definition max_double :: rat where
  "max_double = (2 ^ 53 - 1) * 2 ^ 971"

definition range_rounding :: rounding where
  "range_rounding q =
     (if q > max_double then PosInf else if q < - max_double then NegInf else Fin q)"

definition exact_arith :: js_arith where
  "exact_arith = \<lparr>rnd = Fin, num_str = (\<lambda>x. if x = Fin 0 then ''0'' else ''1''),
     str_num = (\<lambda>s. NaN)\<rparr>"

definition double_arith :: js_arith where
  "double_arith = exact_arith\<lparr>rnd := range_rounding\<rparr>"

definition three_pledges :: "report_donation list" where
  "three_pledges = [\<lparr>rd_amount = Some (ANum (Fin 30)), rd_donor_id = None\<rparr>,
     \<lparr>rd_amount = None, rd_donor_id = None\<rparr>,
     \<lparr>rd_amount = Some (ANum (Fin 60)), rd_donor_id = None\<rparr>]"

definition huge_pledges :: "report_donation list" where
  "huge_pledges = [\<lparr>rd_amount = Some (ANum (Fin (2 ^ 1023))), rd_donor_id = None\<rparr>,
     \<lparr>rd_amount = Some (ANum (Fin (2 ^ 1023))), rd_donor_id = None\<rparr>]"

definition nan_pledge :: "report_donation list" where
  "nan_pledge = [\<lparr>rd_amount = Some (AStr ''NaN''), rd_donor_id = None\<rparr>]"

section \<open>Properties\<close>

lemma insert_message_fires_trigger:
  assumes "insert_message d uid now m = Inr d'"
  shows "d' = update_conversation_timestamp now m (d\<lparr>messages := messages d @ [m]\<rparr>)"
  using assms by (simp add: insert_message_def split: if_splits)

subsection \<open>Every operation keeps the constraints\<close>

lemma db_inv_empty: "db_inv empty_db"
  by (simp add: db_inv_def empty_db_def)

lemma db_inv_frame:
  assumes "db_inv d" "institutions d' = institutions d" "investors d' = investors d"
    "conversations d' = conversations d" "donations d' = donations d"
  shows "db_inv d'"
  using assms by (simp add: db_inv_def conv_fk_def donation_ok_def donation_fk_def list_all_iff)

lemma inv_insert_profile:
  assumes "db_inv d" "insert_profile d uid p = Inr d'"
  shows "db_inv d'"
proof -
  from assms(2) have "d' = d\<lparr>profiles := profiles d @ [p]\<rparr>"
    by (simp add: insert_profile_def split: if_splits)
  then show ?thesis by (intro db_inv_frame [OF assms(1)]) simp_all
qed

lemma inv_update_profile:
  assumes "db_inv d" "update_profile d uid now t pt = Inr d'"
  shows "db_inv d'"
proof -
  from assms(2) obtain ps where "d' = d\<lparr>profiles := ps\<rparr>"
    by (auto simp: update_profile_def Let_def split: if_splits)
  then show ?thesis by (intro db_inv_frame [OF assms(1)]) simp_all
qed

lemma inv_insert_user_role:
  assumes "db_inv d" "insert_user_role d uid r = Inr d'"
  shows "db_inv d'"
proof -
  from assms(2) have "d' = d\<lparr>user_roles := user_roles d @ [r]\<rparr>"
    by (simp add: insert_user_role_def split: if_splits)
  then show ?thesis by (intro db_inv_frame [OF assms(1)]) simp_all
qed

lemma inv_insert_institution:
  assumes "db_inv d" "insert_institution d uid i = Inr d'"
  shows "db_inv d'"
proof -
  from assms(2) have d': "d' = d\<lparr>institutions := institutions d @ [i]\<rparr>"
    and new: "i_id i \<notin> set (map i_id (institutions d))"
    by (simp_all add: insert_institution_def split: if_splits)
  with assms(1) show ?thesis
    by (auto simp: db_inv_def conv_fk_def donation_ok_def donation_fk_def list_all_iff)
qed

lemma inv_insert_investor:
  assumes "db_inv d" "insert_investor d uid v = Inr d'"
  shows "db_inv d'"
proof -
  from assms(2) have d': "d' = d\<lparr>investors := investors d @ [v]\<rparr>"
    and new: "inv_id v \<notin> set (map inv_id (investors d))"
    by (simp_all add: insert_investor_def split: if_splits)
  with assms(1) show ?thesis
    by (auto simp: db_inv_def conv_fk_def donation_ok_def donation_fk_def list_all_iff)
qed

lemma inv_insert_conversation:
  assumes "db_inv d" "insert_conversation d uid c = Inr d'"
  shows "db_inv d'"
proof -
  from assms(2) have d': "d' = d\<lparr>conversations := conversations d @ [c]\<rparr>"
    and new: "conv_pair c \<notin> set (map conv_pair (conversations d))"
    and fk: "conv_fk d c"
    by (simp_all add: insert_conversation_def conv_pair_def conv_fk_def split: if_splits)
  with assms(1) show ?thesis
    by (auto simp: db_inv_def conv_fk_def donation_ok_def donation_fk_def list_all_iff)
qed


lemma inv_insert_message:
  assumes "db_inv d" "insert_message d uid now m = Inr d'"
  shows "db_inv d'"
proof -
  define f :: "conversation \<Rightarrow> conversation" where "f = (\<lambda>c. if c_id c = m_conversation_id m then c\<lparr>c_updated_at := Some now\<rparr> else c)"
  from assms(2) have d': "d' = d\<lparr>messages := messages d @ [m], conversations := map f (conversations d)\<rparr>"
    by (simp add: insert_message_def update_conversation_timestamp_def f_def split: if_splits)
  have pair: "conv_pair \<circ> f = conv_pair"
    by (rule ext) (simp add: conv_pair_def f_def)
  have fk: "conv_fk e (f c) = conv_fk e c" for e c
    by (simp add: conv_fk_def f_def)
  have fk': "conv_fk d' = conv_fk d"
    by (rule ext) (simp add: conv_fk_def d')
  have ok': "donation_ok d' = donation_ok d"
    by (rule ext) (simp add: donation_ok_def donation_fk_def d')
  have "list_all (conv_fk d) (map f (conversations d))"
    using assms(1) by (simp add: db_inv_def list_all_iff fk)
  with assms(1) show ?thesis
    unfolding db_inv_def fk' ok' by (simp add: d' pair)
qed

lemma inv_insert_donation:
  assumes "db_inv d" "insert_donation d uid x = Inr d'"
  shows "db_inv d'"
proof -
  from assms(2) have d': "d' = d\<lparr>donations := donations d @ [x]\<rparr>"
    and ok: "donation_ok d x"
    by (simp_all add: insert_donation_def donation_ok_def split: if_splits)
  with assms(1) show ?thesis
    by (auto simp: db_inv_def conv_fk_def donation_ok_def donation_fk_def list_all_iff)
qed

lemma inv_update_donation:
  assumes "db_inv d" "update_donation d uid now t pt = Inr d'"
  shows "db_inv d'"
proof -
  let ?hit = "\<lambda>x. d_id x = t \<and> donations_update_using d uid x"
  let ?new = "\<lambda>x. update_updated_at_donation now (apply_donation_patch pt x)"
  from assms(2) have d': "d' = d\<lparr>donations := map (\<lambda>x. if ?hit x then ?new x else x) (donations d)\<rparr>"
    and ok: "list_all (donation_ok d) (map ?new (filter ?hit (donations d)))"
    by (simp_all add: update_donation_def Let_def donation_ok_def list_all_iff split: if_splits)
  have "donation_ok d' y" if "y \<in> set (donations d')" for y
  proof -
    from that d' obtain x where x: "x \<in> set (donations d)" and y: "y = (if ?hit x then ?new x else x)"
      by auto
    have "donation_ok d y"
    proof (cases "?hit x")
      case True
      with x ok y show ?thesis by (auto simp: list_all_iff)
    next
      case False
      with x y assms(1) show ?thesis by (auto simp: db_inv_def list_all_iff)
    qed
    then show ?thesis by (simp add: d' donation_ok_def donation_fk_def)
  qed
  with assms(1) show ?thesis
    by (simp add: db_inv_def d' list_all_iff conv_fk_def)
qed

lemma inv_delete_donation:
  assumes "db_inv d" "delete_donation d uid t = Inr d'"
  shows "db_inv d'"
  using assms
  by (auto simp: delete_donation_def db_inv_def conv_fk_def donation_ok_def donation_fk_def list_all_iff)


lemma inv_delete_user:
  assumes "db_inv d"
  shows "db_inv (delete_user d u)"
proof -
  define d' where "d' = delete_user d u"
  define dead_inst where "dead_inst = map (\<lambda>i. Some (i_id i)) (filter (\<lambda>i. i_user_id i = u) (institutions d))"
  define dead_inv where "dead_inv = map (\<lambda>v. Some (inv_id v)) (filter (\<lambda>v. inv_user_id v = u) (investors d))"
  have inst: "institutions d' = filter (\<lambda>i. i_user_id i \<noteq> u) (institutions d)"
    and invs: "investors d' = filter (\<lambda>v. inv_user_id v \<noteq> u) (investors d)"
    and convs: "conversations d' = filter (\<lambda>c. c_institution_id c \<notin> set dead_inst
                                      \<and> c_investor_id c \<notin> set dead_inv) (conversations d)"
    and dons: "donations d' = filter (\<lambda>x. d_institution_id x \<notin> set dead_inst
                                  \<and> d_investor_id x \<notin> set dead_inv) (donations d)"
    by (simp_all add: d'_def delete_user_def Let_def dead_inst_def dead_inv_def)
  have keep_inst: "k \<in> set (map (\<lambda>i. Some (i_id i)) (institutions d')) "
    if "k \<in> set (map (\<lambda>i. Some (i_id i)) (institutions d))" "k \<notin> set dead_inst" for k
    using that by (auto simp: inst dead_inst_def)
  have keep_inv: "k \<in> set (map (\<lambda>v. Some (inv_id v)) (investors d')) "
    if "k \<in> set (map (\<lambda>v. Some (inv_id v)) (investors d))" "k \<notin> set dead_inv" for k
    using that by (auto simp: invs dead_inv_def)
  have 1: "distinct (map i_id (institutions d'))"
    using assms by (simp add: inst db_inv_def distinct_map_filter)
  have 2: "distinct (map inv_id (investors d'))"
    using assms by (simp add: invs db_inv_def distinct_map_filter)
  have 3: "distinct (map conv_pair (conversations d'))"
    using assms by (simp add: convs db_inv_def distinct_map_filter)
  have 4: "list_all (conv_fk d') (conversations d')"
    unfolding list_all_iff
  proof
    fix c assume c: "c \<in> set (conversations d')"
    then have "conv_fk d c" "c_institution_id c \<notin> set dead_inst" "c_investor_id c \<notin> set dead_inv"
      using assms by (auto simp: convs db_inv_def list_all_iff)
    then show "conv_fk d' c"
      using keep_inst keep_inv by (simp add: conv_fk_def)
  qed
  have 5: "list_all (donation_ok d') (donations d')"
    unfolding list_all_iff
  proof
    fix x assume x: "x \<in> set (donations d')"
    then have "donation_ok d x" "d_institution_id x \<notin> set dead_inst" "d_investor_id x \<notin> set dead_inv"
      using assms by (auto simp: dons db_inv_def list_all_iff)
    then show "donation_ok d' x"
      using keep_inst keep_inv by (simp add: donation_ok_def donation_fk_def)
  qed
  from 1 2 3 4 5 show ?thesis
    unfolding d'_def [symmetric] db_inv_def by simp
qed

lemma unique_after_distinct:
  assumes "distinct (map key rows)" "unique_after key hit new rows"
  shows "distinct (map key (map (\<lambda>x. if hit x then new x else x) rows))"
  using assms unfolding unique_after_def list_all_iff
proof (induction rows)
  case Nil
  then show ?case by simp
next
  case (Cons x xs)
  have rest: "distinct (map key (map (\<lambda>x. if hit x then new x else x) xs))"
    using Cons by (auto split: if_splits)
  have fresh: "key (if hit x then new x else x)
      \<notin> set (map key (map (\<lambda>x. if hit x then new x else x) xs))"
  proof
    assume "key (if hit x then new x else x)
      \<in> set (map key (map (\<lambda>x. if hit x then new x else x) xs))"
    then obtain y where y: "y \<in> set xs"
      "key (if hit x then new x else x) = key (if hit y then new y else y)"
      by auto
    show False
    proof (cases "hit x"; cases "hit y")
      assume "hit x" "hit y"
      with y Cons.prems show False by (auto simp: image_iff)
    next
      assume "hit x" "\<not> hit y"
      with y Cons.prems show False by (auto simp: image_iff)
    next
      assume "\<not> hit x" "hit y"
      with y Cons.prems show False by (auto simp: image_iff)
    next
      assume "\<not> hit x" "\<not> hit y"
      with y Cons.prems show False by (auto simp: image_iff)
    qed
  qed
  from rest fresh show ?case by simp
qed

lemma inv_update_institution:
  assumes "db_inv d" "update_institution d uid t pt = Inr d'"
  shows "db_inv d'"
proof -
  define hit :: "institution \<Rightarrow> bool"
    where "hit = (\<lambda>i. i_id i = t \<and> institutions_update_using d uid i)"
  define new :: "institution \<Rightarrow> institution" where "new = apply_institution_patch pt"
  define rows' where "rows' = map (\<lambda>i. if hit i then new i else i) (institutions d)"
  have d': "d' = d\<lparr>institutions := rows'\<rparr>"
    and uniq: "unique_after i_id hit new (institutions d)"
    and keep: "list_all (\<lambda>i. i_id i \<in> set (map i_id rows')
                     \<or> (Some (i_id i) \<notin> set (map c_institution_id (conversations d))
                        \<and> Some (i_id i) \<notin> set (map d_institution_id (donations d))))
                 (filter hit (institutions d))"
    using assms(2) unfolding hit_def new_def rows'_def
    by (simp_all add: update_institution_def Let_def split: if_splits)
  have 1: "distinct (map i_id rows')"
    unfolding rows'_def using assms(1) uniq
    by (intro unique_after_distinct) (simp_all add: db_inv_def)
  have ref: "k \<in> set (map (\<lambda>i. Some (i_id i)) rows')"
    if k: "k \<in> set (map (\<lambda>i. Some (i_id i)) (institutions d))"
      and used: "k \<in> set (map c_institution_id (conversations d))
        \<or> k \<in> set (map d_institution_id (donations d))" for k
  proof -
    from k obtain i where i: "i \<in> set (institutions d)" "k = Some (i_id i)" by auto
    show ?thesis
    proof (cases "hit i")
      case False
      with i(1) have "i \<in> set rows'" by (force simp: rows'_def)
      with i(2) show ?thesis by force
    next
      case True
      with i(1) keep have "i_id i \<in> set (map i_id rows')
          \<or> (Some (i_id i) \<notin> set (map c_institution_id (conversations d))
              \<and> Some (i_id i) \<notin> set (map d_institution_id (donations d)))"
        by (simp add: list_all_iff)
      with used i(2) have "i_id i \<in> set (map i_id rows')" by blast
      with i(2) show ?thesis by force
    qed
  qed
  have 4: "list_all (conv_fk d') (conversations d')"
    unfolding list_all_iff
  proof
    fix c assume c: "c \<in> set (conversations d')"
    then have "conv_fk d c" using assms(1) by (simp add: d' db_inv_def list_all_iff)
    moreover have "c_institution_id c \<in> set (map c_institution_id (conversations d))"
      using c by (simp add: d')
    ultimately show "conv_fk d' c"
      using ref [of "c_institution_id c"] by (simp add: conv_fk_def d')
  qed
  have 5: "list_all (donation_ok d') (donations d')"
    unfolding list_all_iff
  proof
    fix x assume x: "x \<in> set (donations d')"
    then have "donation_ok d x" using assms(1) by (simp add: d' db_inv_def list_all_iff)
    moreover have "d_institution_id x \<in> set (map d_institution_id (donations d))"
      using x by (simp add: d')
    ultimately show "donation_ok d' x"
      using ref [of "d_institution_id x"] by (simp add: donation_ok_def donation_fk_def d')
  qed
  from assms(1) 1 4 5 show ?thesis
    by (simp add: db_inv_def d')
qed

lemma inv_update_investor:
  assumes "db_inv d" "update_investor d uid t pt = Inr d'"
  shows "db_inv d'"
proof -
  define hit :: "investor \<Rightarrow> bool"
    where "hit = (\<lambda>v. inv_id v = t \<and> investors_update_using d uid v)"
  define new :: "investor \<Rightarrow> investor" where "new = apply_investor_patch pt"
  define rows' where "rows' = map (\<lambda>v. if hit v then new v else v) (investors d)"
  have d': "d' = d\<lparr>investors := rows'\<rparr>"
    and uniq: "unique_after inv_id hit new (investors d)"
    and keep: "list_all (\<lambda>v. inv_id v \<in> set (map inv_id rows')
                     \<or> (Some (inv_id v) \<notin> set (map c_investor_id (conversations d))
                        \<and> Some (inv_id v) \<notin> set (map d_investor_id (donations d))))
                 (filter hit (investors d))"
    using assms(2) unfolding hit_def new_def rows'_def
    by (simp_all add: update_investor_def Let_def split: if_splits)
  have 2: "distinct (map inv_id rows')"
    unfolding rows'_def using assms(1) uniq
    by (intro unique_after_distinct) (simp_all add: db_inv_def)
  have ref: "k \<in> set (map (\<lambda>v. Some (inv_id v)) rows')"
    if k: "k \<in> set (map (\<lambda>v. Some (inv_id v)) (investors d))"
      and used: "k \<in> set (map c_investor_id (conversations d))
        \<or> k \<in> set (map d_investor_id (donations d))" for k
  proof -
    from k obtain v where v: "v \<in> set (investors d)" "k = Some (inv_id v)" by auto
    show ?thesis
    proof (cases "hit v")
      case False
      with v(1) have "v \<in> set rows'" by (force simp: rows'_def)
      with v(2) show ?thesis by force
    next
      case True
      with v(1) keep have "inv_id v \<in> set (map inv_id rows')
          \<or> (Some (inv_id v) \<notin> set (map c_investor_id (conversations d))
              \<and> Some (inv_id v) \<notin> set (map d_investor_id (donations d)))"
        by (simp add: list_all_iff)
      with used v(2) have "inv_id v \<in> set (map inv_id rows')" by blast
      with v(2) show ?thesis by force
    qed
  qed
  have 4: "list_all (conv_fk d') (conversations d')"
    unfolding list_all_iff
  proof
    fix c assume c: "c \<in> set (conversations d')"
    then have "conv_fk d c" using assms(1) by (simp add: d' db_inv_def list_all_iff)
    moreover have "c_investor_id c \<in> set (map c_investor_id (conversations d))"
      using c by (simp add: d')
    ultimately show "conv_fk d' c"
      using ref [of "c_investor_id c"] by (simp add: conv_fk_def d')
  qed
  have 5: "list_all (donation_ok d') (donations d')"
    unfolding list_all_iff
  proof
    fix x assume x: "x \<in> set (donations d')"
    then have "donation_ok d x" using assms(1) by (simp add: d' db_inv_def list_all_iff)
    moreover have "d_investor_id x \<in> set (map d_investor_id (donations d))"
      using x by (simp add: d')
    ultimately show "donation_ok d' x"
      using ref [of "d_investor_id x"] by (simp add: donation_ok_def donation_fk_def d')
  qed
  from assms(1) 2 4 5 show ?thesis
    by (simp add: db_inv_def d')
qed

lemma inv_update_profile_key:
  assumes "db_inv d" "update_profile_key d uid now t k pt = Inr d'"
  shows "db_inv d'"
proof -
  from assms(2) obtain ps where "d' = d\<lparr>profiles := ps\<rparr>"
    by (auto simp: update_profile_key_def Let_def split: if_splits)
  then show ?thesis by (intro db_inv_frame [OF assms(1)]) simp_all
qed

lemma inv_update_message:
  assumes "db_inv d" "update_message d uid t pt = Inr d'"
  shows "db_inv d'"
proof -
  from assms(2) obtain ms where "d' = d\<lparr>messages := ms\<rparr>"
    by (auto simp: update_message_def Let_def split: if_splits)
  then show ?thesis by (intro db_inv_frame [OF assms(1)]) simp_all
qed

lemma inv_update_user_role:
  assumes "db_inv d" "update_user_role d uid t pt = Inr d'"
  shows "db_inv d'"
proof -
  from assms(2) obtain rs where "d' = d\<lparr>user_roles := rs\<rparr>"
    by (auto simp: update_user_role_def Let_def split: if_splits)
  then show ?thesis by (intro db_inv_frame [OF assms(1)]) simp_all
qed

lemma inv_delete_user_role:
  assumes "db_inv d" "delete_user_role d uid t = Inr d'"
  shows "db_inv d'"
proof -
  from assms(2) obtain rs where "d' = d\<lparr>user_roles := rs\<rparr>"
    by (auto simp: delete_user_role_def)
  then show ?thesis by (intro db_inv_frame [OF assms(1)]) simp_all
qed

lemma db_inv_step: "db_inv d \<Longrightarrow> db_inv (step d x)"
  unfolding step_def
  by (cases x)
    (auto split: sum.splits
      intro: inv_insert_profile inv_update_profile inv_insert_institution inv_insert_investor
        inv_insert_user_role inv_insert_conversation inv_insert_message inv_insert_donation
        inv_update_donation inv_delete_donation inv_delete_user inv_update_institution
        inv_update_investor inv_update_profile_key inv_update_message inv_update_user_role
        inv_delete_user_role)

lemma db_inv_foldl: "db_inv d \<Longrightarrow> db_inv (foldl step d ops)"
  by (induction ops arbitrary: d) (simp_all add: db_inv_step)

lemma db_inv_run: "db_inv (run ops)"
  unfolding run_def by (rule db_inv_foldl [OF db_inv_empty])

subsection \<open>The message trigger\<close>

text \<open>
  Claim C5. A successful insert of a message stores the row and runs the trigger, and the
  trigger sets \<open>updated_at\<close> to the current time on exactly the conversation rows whose
  id is the message's \<open>conversation_id\<close>: the table keeps its length and order, a row
  with that id becomes itself with \<open>updated_at := now\<close> (every other column as before),
  a row with another id is unchanged, and no other table is touched.
\<close>

theorem update_conversation_timestamp_frame:
  "(insert_message d0 uid now new = Inr d' \<longrightarrow>
      d' = update_conversation_timestamp now new (d0\<lparr>messages := messages d0 @ [new]\<rparr>))
   \<and> length (conversations (update_conversation_timestamp now new d)) = length (conversations d)
   \<and> (\<forall>k < length (conversations d).
        conversations (update_conversation_timestamp now new d) ! k =
          (if c_id (conversations d ! k) = m_conversation_id new
           then (conversations d ! k)\<lparr>c_updated_at := Some now\<rparr>
           else conversations d ! k))
   \<and> profiles (update_conversation_timestamp now new d) = profiles d
   \<and> institutions (update_conversation_timestamp now new d) = institutions d
   \<and> investors (update_conversation_timestamp now new d) = investors d
   \<and> messages (update_conversation_timestamp now new d) = messages d
   \<and> user_roles (update_conversation_timestamp now new d) = user_roles d
   \<and> donations (update_conversation_timestamp now new d) = donations d"
  using insert_message_fires_trigger [of d0 uid now new d']
  by (simp add: update_conversation_timestamp_def)

lemmas mk_defs = mk_profile_def mk_institution_def mk_investor_def mk_conversation_def
  mk_message_def mk_donation_def

theorem update_conversation_timestamp_frame_witness:
  "(\<exists>d'. insert_message pending_party_db (Some ''u2'') 9 (mk_message ''m1'' ''c1'' ''u2'') = Inr d'
      \<and> messages d' = [mk_message ''m1'' ''c1'' ''u2'']
      \<and> conversations d' =
          [(mk_conversation ''c1'' (Some ''i1'') (Some ''v1''))\<lparr>c_updated_at := Some 9\<rparr>,
           mk_conversation ''c2'' (Some ''i1'') (Some ''v2'')])"
proof -
  have ok: "insert_message pending_party_db (Some ''u2'') 9 (mk_message ''m1'' ''c1'' ''u2'')
    = Inr (update_conversation_timestamp 9 (mk_message ''m1'' ''c1'' ''u2'')
        (pending_party_db\<lparr>messages := messages pending_party_db @ [mk_message ''m1'' ''c1'' ''u2'']\<rparr>))"
    by code_simp
  from update_conversation_timestamp_frame [of pending_party_db "Some ''u2''" 9
      "mk_message ''m1'' ''c1'' ''u2''" _
      "pending_party_db\<lparr>messages := messages pending_party_db @ [mk_message ''m1'' ''c1'' ''u2'']\<rparr>"]
  show ?thesis
    unfolding ok
    by (simp add: pending_party_db_def sample_db_def mk_defs update_conversation_timestamp_def)
qed

subsection \<open>Who can change a verification status\<close>

text \<open>
  A caller who is not an admin rewrites no profile but their own: the rows of every
  other user are the same after the update.
\<close>

lemma rewrite_own_rows_only:
  assumes "\<And>p. hit p \<Longrightarrow> uid = Some (p_id p)" "\<And>p. p_id (new p) = p_id p"
  shows "filter (\<lambda>p. Some (p_id p) \<noteq> uid) (map (\<lambda>p. if hit p then new p else p) ps)
    = filter (\<lambda>p. Some (p_id p) \<noteq> uid) ps"
  using assms by (induction ps) auto

lemma update_profile_other_rows:
  assumes "\<not> has_role d uid Admin" "update_profile d uid now t pt = Inr d'"
  shows "filter (\<lambda>p. Some (p_id p) \<noteq> uid) (profiles d') = filter (\<lambda>p. Some (p_id p) \<noteq> uid) (profiles d)"
proof -
  let ?hit = "\<lambda>p. p_id p = t \<and> profiles_update_using d uid p"
  let ?new = "\<lambda>p. update_updated_at_column now (apply_profile_patch pt p)"
  from assms(2) have d': "profiles d' = map (\<lambda>p. if ?hit p then ?new p else p) (profiles d)"
    by (auto simp: update_profile_def Let_def split: if_splits)
  have own: "?hit p \<Longrightarrow> uid = Some (p_id p)" for p
    using assms(1) by (simp add: profiles_update_using_def)
  have id: "p_id (?new p) = p_id p" for p
    by (simp add: update_updated_at_column_def apply_profile_patch_def)
  show ?thesis unfolding d' by (rule rewrite_own_rows_only) (use own id in auto)
qed

text \<open>
  Claim C1. The claim says that no operation open to a user who is not an admin changes a
  profile's verification status. The update policy "Users can update their own profile"
  names no column: in \<open>sample_db\<close> the pending investor \<open>u3\<close>, who has no admin role,
  updates the own profile to \<open>verified\<close> and the update is accepted; likewise a new user
  \<open>u4\<close> inserts the own profile as \<open>verified\<close> at sign-up.
\<close>

theorem non_admin_self_verification:
  "\<not> has_role sample_db (Some ''u3'') Admin
   \<and> update_profile sample_db (Some ''u3'') 5 ''u3'' verify_patch
     = Inr (sample_db\<lparr>profiles :=
         [mk_profile ''u1'' ''institution'' ''verified'',
          mk_profile ''u2'' ''investor'' ''verified'',
          (mk_profile ''u3'' ''investor'' ''verified'')\<lparr>p_updated_at := Some 5\<rparr>]\<rparr>)
   \<and> insert_profile empty_db (Some ''u4'') (mk_profile ''u4'' ''investor'' ''verified'')
     = Inr (empty_db\<lparr>profiles := [mk_profile ''u4'' ''investor'' ''verified'']\<rparr>)"
  by code_simp

subsection \<open>Conversations: one row per pair\<close>

lemma filter_key_absent:
  "k \<notin> f ` set xs \<Longrightarrow> filter (\<lambda>x. f x = k) xs = []"
  by (induction xs) auto

lemma filter_key_at_most_one:
  "distinct (map f xs) \<Longrightarrow> length (filter (\<lambda>x. f x = k) xs) \<le> Suc 0"
  by (induction xs) (auto simp: filter_key_absent)


text \<open>
  Claim C2. In every state reached by a run of the statements of \<open>op\<close> (the updates
  that rewrite the keys of institutions, investors and profiles among them), at most one
  conversation row exists for a pair of institution id \<open>i\<close> and investor id \<open>v\<close>, and
  every conversation row references exactly one institution row and exactly one investor
  row (so neither reference is NULL).
\<close>

theorem conversations_unique_pair:
  "length (filter (\<lambda>c. c_institution_id c = Some i \<and> c_investor_id c = Some v)
             (conversations (run ops))) \<le> 1
   \<and> (\<forall>c \<in> set (conversations (run ops)).
        length (filter (\<lambda>i. c_institution_id c = Some (i_id i)) (institutions (run ops))) = 1
        \<and> length (filter (\<lambda>v. c_investor_id c = Some (inv_id v)) (investors (run ops))) = 1)"
proof -
  let ?d = "run ops"
  have inv: "db_inv ?d" by (rule db_inv_run)
  have "(\<lambda>c. c_institution_id c = Some i \<and> c_investor_id c = Some v)
        = (\<lambda>c. conv_pair c = (Some i, Some v))"
    by (rule ext) (simp add: conv_pair_def)
  moreover have "distinct (map conv_pair (conversations ?d))"
    using inv by (simp add: db_inv_def)
  ultimately have one: "length (filter (\<lambda>c. c_institution_id c = Some i \<and> c_investor_id c = Some v)
             (conversations ?d)) \<le> 1"
    by (simp add: filter_key_at_most_one)
  have refs: "length (filter (\<lambda>i. c_institution_id c = Some (i_id i)) (institutions ?d)) = 1
        \<and> length (filter (\<lambda>v. c_investor_id c = Some (inv_id v)) (investors ?d)) = 1"
    if c: "c \<in> set (conversations ?d)" for c
  proof -
    from inv c have fk: "conv_fk ?d c" by (simp add: db_inv_def list_all_iff)
    then obtain i0 where i0: "i0 \<in> set (institutions ?d)" "c_institution_id c = Some (i_id i0)"
      by (auto simp: conv_fk_def)
    from fk obtain v0 where v0: "v0 \<in> set (investors ?d)" "c_investor_id c = Some (inv_id v0)"
      by (auto simp: conv_fk_def)
    have "length (filter (\<lambda>i. i_id i = i_id i0) (institutions ?d)) \<le> 1"
      using inv by (simp add: db_inv_def filter_key_at_most_one)
    moreover have "filter (\<lambda>i. i_id i = i_id i0) (institutions ?d) \<noteq> []"
      using i0 by (auto simp: filter_empty_conv)
    ultimately have a: "length (filter (\<lambda>i. i_id i = i_id i0) (institutions ?d)) = 1"
      by (cases "filter (\<lambda>i. i_id i = i_id i0) (institutions ?d)") auto
    have "length (filter (\<lambda>v. inv_id v = inv_id v0) (investors ?d)) \<le> 1"
      using inv by (simp add: db_inv_def filter_key_at_most_one)
    moreover have "filter (\<lambda>v. inv_id v = inv_id v0) (investors ?d) \<noteq> []"
      using v0 by (auto simp: filter_empty_conv)
    ultimately have b: "length (filter (\<lambda>v. inv_id v = inv_id v0) (investors ?d)) = 1"
      by (cases "filter (\<lambda>v. inv_id v = inv_id v0) (investors ?d)") auto
    have e1: "(\<lambda>i. c_institution_id c = Some (i_id i)) = (\<lambda>i. i_id i = i_id i0)"
      by (rule ext) (auto simp: i0)
    have e2: "(\<lambda>v. c_investor_id c = Some (inv_id v)) = (\<lambda>v. inv_id v = inv_id v0)"
      by (rule ext) (auto simp: v0)
    show ?thesis unfolding e1 e2 using a b by simp
  qed
  from one refs show ?thesis by blast
qed

theorem conversations_unique_pair_witness:
  "conversations (run sample_ops) = [mk_conversation ''c1'' (Some ''i1'') (Some ''v1'')]
   \<and> length (filter (\<lambda>c. c_institution_id c = Some ''i1'' \<and> c_investor_id c = Some ''v1'')
             (conversations (run sample_ops))) = 1
   \<and> length (filter (\<lambda>i. Some ''i1'' = Some (i_id i)) (institutions (run sample_ops))) = 1
   \<and> length (filter (\<lambda>v. Some ''v1'' = Some (inv_id v)) (investors (run sample_ops))) = 1
   \<and> update_institution (run sample_ops) (Some ''u1'') ''i1''
        (no_institution_change\<lparr>set_i_id := Some ''i2''\<rparr>) = Inl ForeignKeyViolation
   \<and> update_investor (run sample_ops) (Some ''u2'') ''v1''
        (no_investor_change\<lparr>set_inv_id := Some ''v2''\<rparr>) = Inl ForeignKeyViolation"
proof -
  have ev: "conversations (run sample_ops) = [mk_conversation ''c1'' (Some ''i1'') (Some ''v1'')]"
    by code_simp
  have key1: "update_institution (run sample_ops) (Some ''u1'') ''i1''
        (no_institution_change\<lparr>set_i_id := Some ''i2''\<rparr>) = Inl ForeignKeyViolation"
    by code_simp
  have key2: "update_investor (run sample_ops) (Some ''u2'') ''v1''
        (no_investor_change\<lparr>set_inv_id := Some ''v2''\<rparr>) = Inl ForeignKeyViolation"
    by code_simp
  from conversations_unique_pair [of "''i1''" "''v1''" sample_ops] key1 key2
  show ?thesis unfolding ev by (simp add: mk_conversation_def)
qed

subsection \<open>The insert policies against the specification's wording\<close>

lemma verified_pair_exists_whole_tables:
  "verified_pair_exists (profiles d) (institutions d) (investors d) uid c
   = spec_may_create_conversation d uid c"
  unfolding verified_pair_exists_def spec_may_create_conversation_def list_ex_iff
  by (auto; metis)

lemma verified_pair_exists_mono:
  assumes "verified_pair_exists ps insts invs uid c"
    and "set ps \<subseteq> set ps'" "set insts \<subseteq> set insts'" "set invs \<subseteq> set invs'"
  shows "verified_pair_exists ps' insts' invs' uid c"
  using assms unfolding verified_pair_exists_def list_ex_iff by blast

lemma conversations_insert_check_only_if:
  assumes "conversations_insert_check d uid c"
  shows "spec_may_create_conversation d uid c"
proof -
  have "verified_pair_exists (profiles d) (institutions d) (investors d) uid c"
    using assms unfolding conversations_insert_check_def
    by (rule verified_pair_exists_mono)
      (auto simp: visible_profiles_def visible_institutions_def visible_investors_def)
  then show ?thesis by (simp add: verified_pair_exists_whole_tables)
qed

lemma conversations_insert_check_admin:
  assumes "has_role d uid Admin"
  shows "conversations_insert_check d uid c = spec_may_create_conversation d uid c"
  using assms
  by (simp add: conversations_insert_check_def visible_profiles_def visible_institutions_def
      visible_investors_def profiles_select_using_def institutions_select_using_def
      investors_select_using_def verified_pair_exists_whole_tables)

lemma conversations_insert_check_non_admin:
  assumes "\<not> has_role d uid Admin" "conversations_insert_check d uid c"
  shows "list_ex (\<lambda>i. list_ex (\<lambda>v.
           Some (i_id i) = c_institution_id c \<and> Some (inv_id v) = c_investor_id c
           \<and> uid = Some (i_user_id i) \<and> uid = Some (inv_user_id v)) (investors d)) (institutions d)"
  using assms
  unfolding conversations_insert_check_def verified_pair_exists_def visible_profiles_def
    visible_institutions_def visible_investors_def profiles_select_using_def list_ex_iff
  by simp metis

lemma messages_insert_check_iff:
  "messages_insert_check d uid m = spec_may_send_message d uid m"
  unfolding messages_insert_check_def spec_may_send_message_def
    is_institution_in_conversation_def is_investor_in_conversation_def list_ex_iff
  by (auto; metis)

text \<open>
  Claim C3. The claim says that the conversation INSERT policy holds exactly when both
  owning profiles are verified and the caller is one of them. In \<open>two_party_db\<close> the
  verified investor \<open>u2\<close> asks for a conversation of the own investor row \<open>v1\<close> with the
  institution \<open>i1\<close> of the verified user \<open>u1\<close>: the condition of the claim holds, yet
  the policy is false and the insert is rejected, because the policy's sub-select sees only
  the profiles the caller may select, and that is the caller's own. The same holds for
  \<open>u1\<close> as the caller.
\<close>

theorem verified_investor_cannot_create_conversation:
  "spec_may_create_conversation two_party_db (Some ''u2'')
      (mk_conversation ''c1'' (Some ''i1'') (Some ''v1''))
   \<and> \<not> conversations_insert_check two_party_db (Some ''u2'')
      (mk_conversation ''c1'' (Some ''i1'') (Some ''v1''))
   \<and> insert_conversation two_party_db (Some ''u2'')
      (mk_conversation ''c1'' (Some ''i1'') (Some ''v1'')) = Inl RlsViolation
   \<and> \<not> conversations_insert_check two_party_db (Some ''u1'')
      (mk_conversation ''c1'' (Some ''i1'') (Some ''v1''))"
  by code_simp

subsection \<open>Reading conversations\<close>

text \<open>
  Claim C4. For a caller none of whose profile rows is verified, and for every
  conversation row, both helper functions are false and so is the SELECT policy of
  conversations.
\<close>

theorem unverified_caller_reads_no_conversation:
  assumes "list_all (\<lambda>p. Some (p_id p) \<noteq> uid \<or> p_verification_status p \<noteq> ''verified'') (profiles d)"
  shows "\<not> is_institution_in_conversation d uid (c_id c)
    \<and> \<not> is_investor_in_conversation d uid (c_id c)
    \<and> \<not> conversations_select_using d uid c"
  using assms
  unfolding conversations_select_using_def is_institution_in_conversation_def
    is_investor_in_conversation_def list_ex_iff list_all_iff
  by auto

theorem unverified_caller_reads_no_conversation_witness:
  "\<not> conversations_select_using pending_party_db (Some ''u3'')
        (mk_conversation ''c2'' (Some ''i1'') (Some ''v2''))
   \<and> \<not> conversations_select_using pending_party_db (Some ''u3'')
        (mk_conversation ''c1'' (Some ''i1'') (Some ''v1''))
   \<and> conversations_select_using pending_party_db (Some ''u2'')
        (mk_conversation ''c1'' (Some ''i1'') (Some ''v1''))"
proof -
  have h: "list_all (\<lambda>p. Some (p_id p) \<noteq> Some ''u3'' \<or> p_verification_status p \<noteq> ''verified'')
     (profiles pending_party_db)"
    by code_simp
  have pos: "conversations_select_using pending_party_db (Some ''u2'')
        (mk_conversation ''c1'' (Some ''i1'') (Some ''v1''))"
    by code_simp
  from unverified_caller_reads_no_conversation [OF h] pos show ?thesis by blast
qed

subsection \<open>Donations: amount, status and references\<close>

lemma numeric_gt_zero_iff:
  "numeric_gt a (Num 0) = ((\<exists>q. a = Num q \<and> q > 0) \<or> a = NumInf \<or> a = NumNaN)"
  by (cases a) auto

lemma donation_ok_iff:
  "donation_ok d x =
     ((\<exists>a. d_amount x = Some a \<and> numeric_gt a (Num 0))
      \<and> (\<exists>s. d_status x = Some s \<and> s \<in> {''pending'', ''completed'', ''cancelled'', ''failed''})
      \<and> (\<exists>v \<in> set (investors d). d_investor_id x = Some (inv_id v))
      \<and> (\<exists>i \<in> set (institutions d). d_institution_id x = Some (i_id i)))"
  unfolding donation_ok_def donation_not_null_def donation_checks_def donation_fk_def
  by (cases "d_amount x"; cases "d_status x") auto

text \<open>
  What the constraints do give. In every state reached by a run of statements, each
  donation row has an amount that is a number greater than 0, or Infinity, or NaN, a
  status among pending, completed, cancelled and failed, and references an investor row
  and an institution row of that state; an insert of a row that breaks one of the
  constraints is rejected, and so is an admin's update that would rewrite a row into one
  that breaks one of them.
\<close>

lemma donation_rows_pass_constraints:
  "(\<forall>x \<in> set (donations (run ops)).
      (\<exists>a. d_amount x = Some a \<and> ((\<exists>q. a = Num q \<and> q > 0) \<or> a = NumInf \<or> a = NumNaN))
      \<and> (\<exists>s. d_status x = Some s \<and> s \<in> {''pending'', ''completed'', ''cancelled'', ''failed''})
      \<and> (\<exists>v \<in> set (investors (run ops)). d_investor_id x = Some (inv_id v))
      \<and> (\<exists>i \<in> set (institutions (run ops)). d_institution_id x = Some (i_id i)))
   \<and> (\<not> donation_ok d x \<longrightarrow> (\<exists>e. insert_donation d uid x = Inl e))
   \<and> (y \<in> set (donations d) \<and> d_id y = t \<and> has_role d uid Admin
       \<and> \<not> donation_ok d (update_updated_at_donation now (apply_donation_patch pt y))
       \<longrightarrow> (\<exists>e. update_donation d uid now t pt = Inl e))"
proof (intro conjI)
  have "list_all (donation_ok (run ops)) (donations (run ops))"
    using db_inv_run [of ops] by (simp add: db_inv_def)
  then show "\<forall>x \<in> set (donations (run ops)).
      (\<exists>a. d_amount x = Some a \<and> ((\<exists>q. a = Num q \<and> q > 0) \<or> a = NumInf \<or> a = NumNaN))
      \<and> (\<exists>s. d_status x = Some s \<and> s \<in> {''pending'', ''completed'', ''cancelled'', ''failed''})
      \<and> (\<exists>v \<in> set (investors (run ops)). d_investor_id x = Some (inv_id v))
      \<and> (\<exists>i \<in> set (institutions (run ops)). d_institution_id x = Some (i_id i))"
    unfolding list_all_iff donation_ok_iff numeric_gt_zero_iff by blast
next
  show "\<not> donation_ok d x \<longrightarrow> (\<exists>e. insert_donation d uid x = Inl e)"
    by (auto simp: insert_donation_def donation_ok_def)
next
  show "y \<in> set (donations d) \<and> d_id y = t \<and> has_role d uid Admin
       \<and> \<not> donation_ok d (update_updated_at_donation now (apply_donation_patch pt y))
       \<longrightarrow> (\<exists>e. update_donation d uid now t pt = Inl e)"
  proof
    let ?new = "\<lambda>x. update_updated_at_donation now (apply_donation_patch pt x)"
    let ?hit = "\<lambda>x. d_id x = t \<and> donations_update_using d uid x"
    assume h: "y \<in> set (donations d) \<and> d_id y = t \<and> has_role d uid Admin \<and> \<not> donation_ok d (?new y)"
    then have "?new y \<in> set (map ?new (filter ?hit (donations d)))"
      by (auto simp: donations_update_using_def)
    with h have "\<not> list_all (donation_ok d) (map ?new (filter ?hit (donations d)))"
      unfolding list_all_iff by blast
    then have "\<not> (list_all donation_not_null (map ?new (filter ?hit (donations d)))
       \<and> list_all donation_checks (map ?new (filter ?hit (donations d)))
       \<and> list_all (donation_fk d) (map ?new (filter ?hit (donations d))))"
      unfolding list_all_iff donation_ok_def by blast
    then show "\<exists>e. update_donation d uid now t pt = Inl e"
      unfolding update_donation_def Let_def by auto
  qed
qed

text \<open>
  Claim C8. The claim says that every donation row has an amount strictly greater than 0
  and that a row breaking this is rejected at insert. \<open>CHECK (amount > 0)\<close> is the only
  guard of the amount, and in the order of \<open>numeric\<close> NaN is greater than 0: in the run
  \<open>donation_ops\<close> the investor \<open>u2\<close>, who is no admin, inserts a donation of amount NaN
  and the row is stored, while the rows of amount 0, of an unlisted status and of a
  missing institution are rejected.
\<close>

theorem nan_donation_stored:
  "\<not> has_role (run donation_ops) (Some ''u2'') Admin
   \<and> donations (run donation_ops)
     = [mk_donation ''d1'' (Some ''v1'') (Some ''i1'') (Some NumNaN) (Some ''pending'')]"
  by code_simp

theorem nan_donation_stored_witness:
  "map d_amount (donations (run donation_ops)) = [Some NumNaN]"
  using nan_donation_stored by (simp add: mk_donation_def)

section \<open>Properties of the client components\<close>

subsection \<open>Backend errors in Messages\<close>

text \<open>
  Claim C6. When the backend answers \<open>loadConversations\<close> with an error, the handler
  sent one request, raises one destructive toast and leaves the state, so also
  \<open>conversations\<close>, as it was. When it answers the insert of \<open>handleSendMessage\<close>
  with an error, the handler sent one request, raises one destructive toast and leaves
  the state as it was. When the insert succeeds and the reload that follows fails, the
  draft is cleared, nothing else changes and one destructive toast is raised. The draft
  \<open>newMessage\<close> changes only if the guard passed and the insert succeeded.
\<close>

theorem backend_error_single_toast:
  "(error res = Some msg \<longrightarrow>
      loadConversations st res
        = (st, [Call SelectConversations, error_toast ''Error loading conversations'' msg]))
   \<and> (can_send st \<and> error ins = Some msg \<longrightarrow>
      handleSendMessage st ins reload
        = (st, [send_call st, error_toast ''Error sending message'' msg]))
   \<and> (can_send st \<and> error ins = None \<and> error reload = Some msg \<longrightarrow>
      handleSendMessage st ins reload
        = (st\<lparr>st_newMessage := []\<rparr>,
           [send_call st, Call SelectConversations,
            error_toast ''Error loading conversations'' msg]))
   \<and> (st_newMessage (fst (handleSendMessage st ins reload)) \<noteq> st_newMessage st \<longrightarrow>
      can_send st \<and> error ins = None)"
  by (auto simp: loadConversations_def handleSendMessage_def can_send_def error_toast_def
      send_call_def Let_def split: option.splits prod.splits)

theorem backend_error_single_toast_witness:
  "loadConversations draft_state \<lparr>data = None, error = Some ''timeout''\<rparr>
     = (draft_state, [Call SelectConversations,
          error_toast ''Error loading conversations'' ''timeout''])
   \<and> handleSendMessage draft_state \<lparr>data = None, error = Some ''denied''\<rparr>
        \<lparr>data = Some [], error = None\<rparr>
     = (draft_state, [Call (InsertMessageRow ''c1'' ''u2'' ''hi''),
          error_toast ''Error sending message'' ''denied''])
   \<and> handleSendMessage draft_state \<lparr>data = None, error = None\<rparr>
        \<lparr>data = None, error = Some ''timeout''\<rparr>
     = (draft_state\<lparr>st_newMessage := []\<rparr>,
        [Call (InsertMessageRow ''c1'' ''u2'' ''hi''), Call SelectConversations,
         error_toast ''Error loading conversations'' ''timeout''])"
proof -
  have c: "can_send draft_state" by code_simp
  have s: "send_call draft_state = Call (InsertMessageRow ''c1'' ''u2'' ''hi'')" by code_simp
  from backend_error_single_toast [of "\<lparr>data = None, error = Some ''timeout''\<rparr>" "''timeout''"
      draft_state "\<lparr>data = None, error = Some ''denied''\<rparr>" "\<lparr>data = Some [], error = None\<rparr>"]
    backend_error_single_toast [of "\<lparr>data = None, error = Some ''timeout''\<rparr>" "''denied''"
      draft_state "\<lparr>data = None, error = Some ''denied''\<rparr>" "\<lparr>data = Some [], error = None\<rparr>"]
    backend_error_single_toast [of "\<lparr>data = None, error = Some ''timeout''\<rparr>" "''timeout''"
      draft_state "\<lparr>data = None, error = None\<rparr>" "\<lparr>data = None, error = Some ''timeout''\<rparr>"]
    c s
  show ?thesis by simp
qed

subsection \<open>Opening a conversation that exists\<close>

text \<open>The objects that \<open>loadConversations\<close> stores have neither an \<open>institution_id\<close>
  nor an \<open>investor_id\<close>, so the \<open>find\<close> of \<open>handleCreateConversation\<close> matches none
  of them and the handler goes on to insert.\<close>

lemma format_conversation_party_ids:
  "js_get (format_conversation u row) ''institution_id'' = JUndefined
   \<and> js_get (format_conversation u row) ''investor_id'' = JUndefined"
  by (simp add: format_conversation_def js_get_def Let_def)

lemma find_none: "(\<And>x. x \<in> set xs \<Longrightarrow> \<not> P x) \<Longrightarrow> find P xs = None"
  by (induction xs) auto

lemma find_existing_loaded:
  assumes "st_conversations st = map (format_conversation u) rows"
  shows "find_existing st = None"
  unfolding find_existing_def assms
  by (rule find_none) (auto simp: format_conversation_party_ids)

lemma handleCreateConversation_loaded_inserts:
  assumes "st_conversations st = map (format_conversation u) rows"
    and "st_selectedPartner st \<noteq> []" "truthy (st_currentUserId st)" "truthy (st_userType st)"
  shows "\<exists>a b. Call (InsertConversationRow a b) \<in> set (snd (handleCreateConversation st own ins reload))"
  using assms(2-) find_existing_loaded [OF assms(1)]
  by (auto simp: handleCreateConversation_def Let_def split: option.splits prod.splits)

lemma handleContactInstitution_existing:
  assumes "error investor = None" "data investor = Some k" "data existing = Some cid"
  shows "handleContactInstitution inst (Some u) investor existing ins
    = [Call GetUser, Call (SelectOwnInvestor u), Call (FindConversation k inst),
       Navigate (''/messages?conversation='' @ cid)]"
  using assms by (simp add: handleContactInstitution_def)

text \<open>
  Claim C7. The claim says that for a partner whose conversation is in the loaded list
  the handlers open it and insert nothing. In \<open>partner_chosen\<close> the list holds the
  conversation \<open>c1\<close> of the investor \<open>u2\<close> with institution \<open>i1\<close>, and \<open>i1\<close> is the
  chosen partner: \<open>handleCreateConversation\<close> looks up the caller's investor id and
  sends the insert of \<open>(v1, i1)\<close> again; the backend's duplicate-key error becomes a
  destructive toast and the existing conversation is not opened.
  \<open>handleContactInstitution\<close> does what the claim says
  (\<open>handleContactInstitution_existing\<close>).
\<close>

theorem existing_conversation_inserted_again:
  "map (\<lambda>c. js_get c ''id'') (st_conversations partner_chosen) = [JStr ''c1'']
   \<and> handleCreateConversation partner_chosen \<lparr>data = Some ''v1'', error = None\<rparr>
       \<lparr>data = None, error = Some ''duplicate key value violates unique constraint''\<rparr>
       \<lparr>data = Some [school_row], error = None\<rparr>
     = (partner_chosen,
        [Call (SelectOwnInvestor ''u2''), Call (InsertConversationRow ''v1'' ''i1''),
         Toast \<lparr>t_title = ''Error'',
           t_description = ''duplicate key value violates unique constraint'',
           t_variant = Some ''destructive''\<rparr>])"
  by code_simp

theorem existing_conversation_inserted_again_witness:
  "Call (InsertConversationRow ''v1'' ''i1'')
     \<in> set (snd (handleCreateConversation partner_chosen \<lparr>data = Some ''v1'', error = None\<rparr>
          \<lparr>data = None, error = Some ''duplicate key value violates unique constraint''\<rparr>
          \<lparr>data = Some [school_row], error = None\<rparr>))
   \<and> st_selectedConversationId
        (fst (handleCreateConversation partner_chosen \<lparr>data = Some ''v1'', error = None\<rparr>
          \<lparr>data = None, error = Some ''duplicate key value violates unique constraint''\<rparr>
          \<lparr>data = Some [school_row], error = None\<rparr>)) = None"
proof -
  have "st_selectedConversationId partner_chosen = None"
    by (simp add: partner_chosen_def)
  with existing_conversation_inserted_again show ?thesis by simp
qed

subsection \<open>The engagement score\<close>

lemma js_div_fin: "b \<noteq> 0 \<Longrightarrow> js_div a b = Fin (a / b)"
  by (simp add: js_div_def)

text \<open>
  Claim C9. For every list of conversations and of messages, the engagement score is a
  finite number between 0 and 100.
\<close>

theorem engagement_score_bounded:
  "\<exists>n. engagementScore (metrics convs msgs) = Fin n \<and> 0 \<le> n \<and> n \<le> 100"
  by (cases "convs = []") (simp_all add: metrics_def Let_def js_div_fin js_sub_def)

theorem engagement_score_bounded_witness:
  "engagementScore (metrics [] [unread_message]) = Fin 0
   \<and> engagementScore (metrics (replicate 51 bare_conversation) []) = Fin 100
   \<and> (\<exists>n. engagementScore (metrics [bare_conversation] [unread_message]) = Fin n
         \<and> 0 \<le> n \<and> n \<le> 100)"
  using engagement_score_bounded [of "[bare_conversation]" "[unread_message]"]
  by (simp add: metrics_def Let_def js_sub_def js_div_fin unread_message_def
      bare_conversation_def truthy_def)

subsection \<open>The report figures\<close>

text \<open>With exact arithmetic and rows whose amounts are finite numbers or null, the
  total is the sum of the amounts.\<close>

lemma exact_total:
  assumes "list_all (\<lambda>d. \<exists>a. amount_or_zero d = ANum (Fin a)) dons"
  shows "foldl (\<lambda>sum d. js_plus exact_arith sum (amount_or_zero d)) (ANum (Fin s)) dons
    = ANum (Fin (s + (\<Sum>d\<leftarrow>dons. case amount_or_zero d of ANum (Fin a) \<Rightarrow> a | _ \<Rightarrow> 0)))"
  using assms
proof (induction dons arbitrary: s)
  case Nil
  then show ?case by simp
next
  case (Cons d dons)
  then obtain a where a: "amount_or_zero d = ANum (Fin a)" by auto
  with Cons show ?case by (simp add: js_plus_def exact_arith_def add.assoc)
qed

text \<open>
  Claim C10. \<open>processReportData\<close> divides by no zero, whatever the lists and the
  arithmetic: it returns a report, whose \<open>totalDonations\<close> is the number of donations
  and whose \<open>totalAmount\<close> is the sum of their amounts (null counted as 0) in the order
  of the list; \<open>averageDonation\<close> is 0 for no donations and otherwise that sum divided
  by that number; \<open>conversionRate\<close> is 0 for no conversations and otherwise the number
  of donations divided by the number of conversations, times 100.
\<close>

theorem report_no_division_by_zero:
  "\<exists>r. processReportData J dons convs msgs = Inr r
     \<and> totalDonations r = length dons
     \<and> totalAmount r = sum_amounts J dons
     \<and> averageDonation r =
         (if dons = [] then Fin 0
          else dbl_quot (rnd J) (to_number J (sum_amounts J dons)) (of_nat (length dons)))
     \<and> conversionRate r =
         (if convs = [] then Fin 0
          else dbl_scale (rnd J)
                 (dbl_quot (rnd J) (Fin (of_nat (length dons))) (of_nat (length convs))) 100)"
  by (cases "dons = []"; cases "convs = []")
    (simp_all add: processReportData_def Let_def dbl_div_def)

theorem report_no_division_by_zero_witness:
  "(\<exists>r. processReportData exact_arith [] ([]::unit list) ([]::unit list) = Inr r
       \<and> averageDonation r = Fin 0 \<and> conversionRate r = Fin 0)
   \<and> (\<exists>r. processReportData exact_arith three_pledges [(), (), (), ()] ([]::unit list) = Inr r
       \<and> totalDonations r = 3 \<and> totalAmount r = ANum (Fin 90)
       \<and> averageDonation r = Fin 30 \<and> conversionRate r = Fin 75)
   \<and> (\<exists>r. processReportData double_arith huge_pledges [()] ([]::unit list) = Inr r
       \<and> totalAmount r = ANum PosInf \<and> averageDonation r = PosInf
       \<and> conversionRate r = Fin 200)
   \<and> (\<exists>r. processReportData double_arith nan_pledge [()] ([]::unit list) = Inr r
       \<and> totalAmount r = AStr ''0NaN'' \<and> averageDonation r = NaN
       \<and> conversionRate r = Fin 100)"
proof -
  have big: "(2::rat) ^ 1023 + 2 ^ 1023 > max_double"
    by (simp add: max_double_def)
  have small: "\<not> (100::rat) > max_double" "\<not> (200::rat) > max_double"
    "\<not> (1::rat) > max_double" "\<not> (2::rat) > max_double"
    by (simp_all add: max_double_def)
  from report_no_division_by_zero [of exact_arith "[]" "[]::unit list" "[]::unit list"]
  have a: "\<exists>r. processReportData exact_arith [] ([]::unit list) ([]::unit list) = Inr r
       \<and> averageDonation r = Fin 0 \<and> conversionRate r = Fin 0"
    by auto
  from report_no_division_by_zero [of exact_arith three_pledges "[(), (), (), ()]"
      "[]::unit list"]
  have b: "\<exists>r. processReportData exact_arith three_pledges [(), (), (), ()] ([]::unit list)
         = Inr r
       \<and> totalDonations r = 3 \<and> totalAmount r = ANum (Fin 90)
       \<and> averageDonation r = Fin 30 \<and> conversionRate r = Fin 75"
    by (auto simp: three_pledges_def amount_or_zero_def sum_amounts_def js_plus_def
        to_number_def exact_arith_def)
  from report_no_division_by_zero [of double_arith huge_pledges "[()]" "[]::unit list"] big small
  have c: "\<exists>r. processReportData double_arith huge_pledges [()] ([]::unit list) = Inr r
       \<and> totalAmount r = ANum PosInf \<and> averageDonation r = PosInf
       \<and> conversionRate r = Fin 200"
    by (auto simp: huge_pledges_def amount_or_zero_def sum_amounts_def js_plus_def
        to_number_def double_arith_def exact_arith_def range_rounding_def)
  from report_no_division_by_zero [of double_arith nan_pledge "[()]" "[]::unit list"] small
  have d: "\<exists>r. processReportData double_arith nan_pledge [()] ([]::unit list) = Inr r
       \<and> totalAmount r = AStr ''0NaN'' \<and> averageDonation r = NaN
       \<and> conversionRate r = Fin 100"
    by (auto simp: nan_pledge_def amount_or_zero_def sum_amounts_def js_plus_def
        to_number_def double_arith_def exact_arith_def range_rounding_def)
  from a b c d show ?thesis by blast
qed

end
